theory Spec2Isabelle
  imports Complex_Main
begin

unbundle bit_operations_syntax

section \<open>Thread-parallel tally and reduction (USER-OMP/thr\_omp.cpp)\<close>

text \<open>
  The embedding follows \<^verbatim>\<open>ThrOMP\<close> function by function. Conventions:
  \<^item> a C++ \<^verbatim>\<open>double\<close> is a \<^typ>\<open>real\<close>: rounding is not modelled, so every
    statement below is about the exact arithmetic the code writes down;
  \<^item> a C++ \<^verbatim>\<open>int\<close> is an \<^typ>\<open>int\<close> (signed overflow is undefined in C++ and is
    not modelled); an \<^verbatim>\<open>int\<close> used as a condition is true when it is not 0;
  \<^item> a \<^verbatim>\<open>double[6]\<close> is a \<open>vec6\<close>, component \<open>k\<close> of the array being the
    \<open>k\<close>-th argument of \<open>Vec6\<close>;
  \<^item> the shared per-atom buffers are an explicit store, indexed by element (per-atom
    energy) or by row of six (per-atom stress); a pointer into a buffer is the index
    it points to, and pointer arithmetic is addition of indices.
\<close>

subsection \<open>Six-component tensors\<close>

datatype vec6 = Vec6 real real real real real real

instantiation vec6 :: ab_group_add
begin

fun plus_vec6 :: "vec6 \<Rightarrow> vec6 \<Rightarrow> vec6" where
  "plus_vec6 (Vec6 a0 a1 a2 a3 a4 a5) (Vec6 b0 b1 b2 b3 b4 b5) =
     Vec6 (a0 + b0) (a1 + b1) (a2 + b2) (a3 + b3) (a4 + b4) (a5 + b5)"

fun minus_vec6 :: "vec6 \<Rightarrow> vec6 \<Rightarrow> vec6" where
  "minus_vec6 (Vec6 a0 a1 a2 a3 a4 a5) (Vec6 b0 b1 b2 b3 b4 b5) =
     Vec6 (a0 - b0) (a1 - b1) (a2 - b2) (a3 - b3) (a4 - b4) (a5 - b5)"

fun uminus_vec6 :: "vec6 \<Rightarrow> vec6" where
  "uminus_vec6 (Vec6 a0 a1 a2 a3 a4 a5) = Vec6 (- a0) (- a1) (- a2) (- a3) (- a4) (- a5)"

definition zero_vec6 :: vec6 where
  "zero_vec6 = Vec6 0 0 0 0 0 0"

instance
proof
  fix a b c :: vec6
  show "a + b + c = a + (b + c)"
    by (cases a, cases b, cases c) simp
  show "a + b = b + a"
    by (cases a, cases b) simp
  show "0 + a = a"
    by (cases a) (simp add: zero_vec6_def)
  show "- a + a = 0"
    by (cases a) (simp add: zero_vec6_def)
  show "a - b = a + - b"
    by (cases a, cases b) simp
qed

end

text \<open>Multiplication of every component by a scalar.\<close>

fun vscale :: "real \<Rightarrow> vec6 \<Rightarrow> vec6" where
  "vscale s (Vec6 a0 a1 a2 a3 a4 a5) = Vec6 (s * a0) (s * a1) (s * a2) (s * a3) (s * a4) (s * a5)"

text \<open>The two static helpers \<^verbatim>\<open>v_tally(vout, vin)\<close> and \<^verbatim>\<open>v_tally(vout, scale, vin)\<close>;
  the result is the new content of \<^verbatim>\<open>vout\<close>.\<close>

fun v_tally :: "vec6 \<Rightarrow> vec6 \<Rightarrow> vec6" where
  "v_tally (Vec6 o0 o1 o2 o3 o4 o5) (Vec6 i0 i1 i2 i3 i4 i5) =
     Vec6 (o0 + i0) (o1 + i1) (o2 + i2) (o3 + i3) (o4 + i4) (o5 + i5)"

fun v_tally_scale :: "vec6 \<Rightarrow> real \<Rightarrow> vec6 \<Rightarrow> vec6" where
  "v_tally_scale (Vec6 o0 o1 o2 o3 o4 o5) scale (Vec6 i0 i1 i2 i3 i4 i5) =
     Vec6 (o0 + scale * i0) (o1 + scale * i1) (o2 + scale * i2)
          (o3 + scale * i3) (o4 + scale * i4) (o5 + scale * i5)"

subsection \<open>The per-thread accumulator\<close>

text \<open>
  \<^verbatim>\<open>ThrData\<close> is declared in \<^verbatim>\<open>thr_data.h\<close>; the record has the fields that
  \<^verbatim>\<open>thr_omp.cpp\<close> reads and writes. \<open>tid\<close> is what \<^verbatim>\<open>get_tid()\<close> returns;
  \<open>eatom_ptr\<close> and \<open>vatom_ptr\<close> are the pointer fields \<^verbatim>\<open>_eatom\<close> and \<^verbatim>\<open>_vatom\<close>.
\<close>

record ThrData =
  tid :: int
  eng_vdwl :: real
  eng_coul :: real
  eng_bond :: real
  eng_angle :: real
  eng_dihed :: real
  eng_imprp :: real
  eng_kspce :: real
  virial_pair :: vec6
  virial_bond :: vec6
  virial_angle :: vec6
  virial_dihed :: vec6
  virial_imprp :: vec6
  virial_kspce :: vec6
  eatom_ptr :: int
  vatom_ptr :: int

subsection \<open>Setup\<close>

text \<open>\<^verbatim>\<open>ev_setup_thr(eflag, vflag, nall, eatom, vatom, thr)\<close>.\<close>

definition ev_setup_thr :: "int \<Rightarrow> int \<Rightarrow> int \<Rightarrow> int \<Rightarrow> int \<Rightarrow> ThrData \<Rightarrow> ThrData" where
  "ev_setup_thr eflag vflag nall eatom vatom thr =
     (let t = tid thr;
          thr1 = (if eflag AND 2 \<noteq> 0 then thr\<lparr>eatom_ptr := eatom + t * nall\<rparr> else thr);
          thr2 = (if vflag AND 4 \<noteq> 0 then thr1\<lparr>vatom_ptr := vatom + t * nall\<rparr> else thr1)
      in thr2)"

subsection \<open>The shared per-atom buffers and the request flags\<close>

text \<open>
  \<open>eatom_mem\<close> is the shared per-atom energy buffer and \<open>vatom_mem\<close> the shared per-atom
  stress buffer (one \<open>vec6\<close> per row); \<^verbatim>\<open>thr->_eatom[i]\<close> is the element at index
  \<open>eatom_ptr thr + i\<close> and \<^verbatim>\<open>thr->_vatom[i]\<close> the row at index \<open>vatom_ptr thr + i\<close>.
  A tally runs on the calling thread's accumulator and the buffers.
\<close>

record atom_store =
  eatom_mem :: "int \<Rightarrow> real"
  vatom_mem :: "int \<Rightarrow> vec6"

type_synonym tstate = "ThrData \<times> atom_store"

text \<open>What the calling thread reads as \<^verbatim>\<open>thr->_eatom[x]\<close> and \<^verbatim>\<open>thr->_vatom[x]\<close>.\<close>

definition eatom_at :: "tstate \<Rightarrow> int \<Rightarrow> real" where
  "eatom_at s x = eatom_mem (snd s) (eatom_ptr (fst s) + x)"

definition vatom_at :: "tstate \<Rightarrow> int \<Rightarrow> vec6" where
  "vatom_at s x = vatom_mem (snd s) (vatom_ptr (fst s) + x)"

text \<open>The flags a tally reads from its \<^verbatim>\<open>Pair\<close> or \<^verbatim>\<open>Dihedral\<close> object.\<close>

record ev_flags =
  eflag_either :: int
  eflag_global :: int
  eflag_atom :: int
  vflag_either :: int
  vflag_global :: int
  vflag_atom :: int

text \<open>The statements the tallies are made of:
  \<^verbatim>\<open>thr->eng_vdwl += x\<close>, \<^verbatim>\<open>thr->eng_coul += x\<close>, \<^verbatim>\<open>thr->eng_bond += x\<close>,
  \<^verbatim>\<open>thr->_eatom[i] += x\<close>, \<^verbatim>\<open>v_tally(thr->virial_pair, v)\<close>,
  \<^verbatim>\<open>v_tally(thr->virial_pair, scale, v)\<close>, the same two on \<^verbatim>\<open>thr->virial_dihed\<close>,
  \<^verbatim>\<open>v_tally(thr->_vatom[i], v)\<close> and \<^verbatim>\<open>v_tally(thr->_vatom[i], scale, v)\<close>.\<close>

definition add_eng_vdwl :: "real \<Rightarrow> tstate \<Rightarrow> tstate" where
  "add_eng_vdwl x s = ((fst s)\<lparr>eng_vdwl := eng_vdwl (fst s) + x\<rparr>, snd s)"

definition add_eng_coul :: "real \<Rightarrow> tstate \<Rightarrow> tstate" where
  "add_eng_coul x s = ((fst s)\<lparr>eng_coul := eng_coul (fst s) + x\<rparr>, snd s)"

definition add_eng_bond :: "real \<Rightarrow> tstate \<Rightarrow> tstate" where
  "add_eng_bond x s = ((fst s)\<lparr>eng_bond := eng_bond (fst s) + x\<rparr>, snd s)"

definition add_eatom :: "int \<Rightarrow> real \<Rightarrow> tstate \<Rightarrow> tstate" where
  "add_eatom i x s =
     (fst s, (snd s)\<lparr>eatom_mem :=
        (eatom_mem (snd s))(eatom_ptr (fst s) + i := eatom_mem (snd s) (eatom_ptr (fst s) + i) + x)\<rparr>)"

definition tally_virial_pair :: "vec6 \<Rightarrow> tstate \<Rightarrow> tstate" where
  "tally_virial_pair v s = ((fst s)\<lparr>virial_pair := v_tally (virial_pair (fst s)) v\<rparr>, snd s)"

definition tally_virial_pair_scale :: "real \<Rightarrow> vec6 \<Rightarrow> tstate \<Rightarrow> tstate" where
  "tally_virial_pair_scale scale v s =
     ((fst s)\<lparr>virial_pair := v_tally_scale (virial_pair (fst s)) scale v\<rparr>, snd s)"

definition tally_virial_dihed :: "vec6 \<Rightarrow> tstate \<Rightarrow> tstate" where
  "tally_virial_dihed v s = ((fst s)\<lparr>virial_dihed := v_tally (virial_dihed (fst s)) v\<rparr>, snd s)"

definition tally_virial_dihed_scale :: "real \<Rightarrow> vec6 \<Rightarrow> tstate \<Rightarrow> tstate" where
  "tally_virial_dihed_scale scale v s =
     ((fst s)\<lparr>virial_dihed := v_tally_scale (virial_dihed (fst s)) scale v\<rparr>, snd s)"

definition tally_vatom :: "int \<Rightarrow> vec6 \<Rightarrow> tstate \<Rightarrow> tstate" where
  "tally_vatom i v s =
     (fst s, (snd s)\<lparr>vatom_mem :=
        (vatom_mem (snd s))(vatom_ptr (fst s) + i := v_tally (vatom_mem (snd s) (vatom_ptr (fst s) + i)) v)\<rparr>)"

definition tally_vatom_scale :: "int \<Rightarrow> real \<Rightarrow> vec6 \<Rightarrow> tstate \<Rightarrow> tstate" where
  "tally_vatom_scale i scale v s =
     (fst s, (snd s)\<lparr>vatom_mem :=
        (vatom_mem (snd s))(vatom_ptr (fst s) + i :=
           v_tally_scale (vatom_mem (snd s) (vatom_ptr (fst s) + i)) scale v)\<rparr>)"

subsection \<open>Pairwise tally\<close>

text \<open>\<^verbatim>\<open>e_tally_thr(pair, i, j, nlocal, newton_pair, evdwl, ecoul, thr)\<close>.\<close>

definition e_tally_thr ::
  "ev_flags \<Rightarrow> int \<Rightarrow> int \<Rightarrow> int \<Rightarrow> int \<Rightarrow> real \<Rightarrow> real \<Rightarrow> tstate \<Rightarrow> tstate" where
  "e_tally_thr pair i j nlocal newton_pair evdwl ecoul s0 =
     (let s1 =
        (if eflag_global pair \<noteq> 0 then
           (if newton_pair \<noteq> 0 then add_eng_coul ecoul (add_eng_vdwl evdwl s0)
            else
              (let evdwlhalf = 0.5 * evdwl;
                   ecoulhalf = 0.5 * ecoul;
                   sa = (if i < nlocal
                         then add_eng_coul ecoulhalf (add_eng_vdwl evdwlhalf s0) else s0);
                   sb = (if j < nlocal
                         then add_eng_coul ecoulhalf (add_eng_vdwl evdwlhalf sa) else sa)
               in sb))
         else s0);
          s2 =
        (if eflag_atom pair \<noteq> 0 then
           (let epairhalf = 0.5 * (evdwl + ecoul);
                sa = (if newton_pair \<noteq> 0 \<or> i < nlocal then add_eatom i epairhalf s1 else s1);
                sb = (if newton_pair \<noteq> 0 \<or> j < nlocal then add_eatom j epairhalf sa else sa)
            in sb)
         else s1)
      in s2)"

text \<open>\<^verbatim>\<open>v_tally_thr(pair, i, j, nlocal, newton_pair, v, thr)\<close>.\<close>

definition v_tally_thr ::
  "ev_flags \<Rightarrow> int \<Rightarrow> int \<Rightarrow> int \<Rightarrow> int \<Rightarrow> vec6 \<Rightarrow> tstate \<Rightarrow> tstate" where
  "v_tally_thr pair i j nlocal newton_pair v s0 =
     (let s1 =
        (if vflag_global pair \<noteq> 0 then
           (if newton_pair \<noteq> 0 then tally_virial_pair v s0
            else
              (let sa = (if i < nlocal then tally_virial_pair_scale 0.5 v s0 else s0);
                   sb = (if j < nlocal then tally_virial_pair_scale 0.5 v sa else sa)
               in sb))
         else s0);
          s2 =
        (if vflag_atom pair \<noteq> 0 then
           (let sa = (if newton_pair \<noteq> 0 \<or> i < nlocal
                      then tally_vatom_scale i 0.5 v s1 else s1);
                sb = (if newton_pair \<noteq> 0 \<or> j < nlocal
                      then tally_vatom_scale j 0.5 v sa else sa)
            in sb)
         else s1)
      in s2)"

text \<open>\<^verbatim>\<open>ev_tally_thr(pair, i, j, nlocal, newton_pair, evdwl, ecoul, fpair, delx, dely, delz, thr)\<close>
  and \<^verbatim>\<open>ev_tally_xyz_thr\<close>, which build the virial and call the two tallies above.\<close>

definition ev_tally_thr ::
  "ev_flags \<Rightarrow> int \<Rightarrow> int \<Rightarrow> int \<Rightarrow> int \<Rightarrow> real \<Rightarrow> real \<Rightarrow> real \<Rightarrow> real \<Rightarrow> real \<Rightarrow> real
     \<Rightarrow> tstate \<Rightarrow> tstate" where
  "ev_tally_thr pair i j nlocal newton_pair evdwl ecoul fpair delx dely delz s0 =
     (let s1 = (if eflag_either pair \<noteq> 0
                then e_tally_thr pair i j nlocal newton_pair evdwl ecoul s0 else s0);
          s2 = (if vflag_either pair \<noteq> 0 then
                  (let v = Vec6 (delx * delx * fpair) (dely * dely * fpair) (delz * delz * fpair)
                                (delx * dely * fpair) (delx * delz * fpair) (dely * delz * fpair)
                   in v_tally_thr pair i j nlocal newton_pair v s1)
                else s1)
      in s2)"

definition ev_tally_xyz_thr ::
  "ev_flags \<Rightarrow> int \<Rightarrow> int \<Rightarrow> int \<Rightarrow> int \<Rightarrow> real \<Rightarrow> real \<Rightarrow> real \<Rightarrow> real \<Rightarrow> real
     \<Rightarrow> real \<Rightarrow> real \<Rightarrow> real \<Rightarrow> tstate \<Rightarrow> tstate" where
  "ev_tally_xyz_thr pair i j nlocal newton_pair evdwl ecoul fx fy fz delx dely delz s0 =
     (let s1 = (if eflag_either pair \<noteq> 0
                then e_tally_thr pair i j nlocal newton_pair evdwl ecoul s0 else s0);
          s2 = (if vflag_either pair \<noteq> 0 then
                  (let v = Vec6 (delx * fx) (dely * fy) (delz * fz)
                                (delx * fy) (delx * fz) (dely * fz)
                   in v_tally_thr pair i j nlocal newton_pair v s1)
                else s1)
      in s2)"

subsection \<open>Triplet, quadruplet and list tallies\<close>

text \<open>A \<^verbatim>\<open>const double *\<close> argument that points to three components.\<close>

datatype vec3 = Vec3 (el0: real) (el1: real) (el2: real)

text \<open>Modelled from the spec: the constant \<^verbatim>\<open>THIRD\<close> of \<^verbatim>\<open>math_const.h\<close>, which is not
  part of the sources at hand; the spec calls the value it scales a third-share.\<close>

definition THIRD :: real where
  "THIRD = 1 / 3"

text \<open>\<^verbatim>\<open>ev_tally3_thr(pair, i, j, k, evdwl, ecoul, fj, fk, drji, drki, thr)\<close>.\<close>

definition ev_tally3_thr ::
  "ev_flags \<Rightarrow> int \<Rightarrow> int \<Rightarrow> int \<Rightarrow> real \<Rightarrow> real \<Rightarrow> vec3 \<Rightarrow> vec3 \<Rightarrow> vec3 \<Rightarrow> vec3
     \<Rightarrow> tstate \<Rightarrow> tstate" where
  "ev_tally3_thr pair i j k evdwl ecoul fj fk drji drki s0 =
     (let s1 =
        (if eflag_either pair \<noteq> 0 then
           (let sa = (if eflag_global pair \<noteq> 0
                      then add_eng_coul ecoul (add_eng_vdwl evdwl s0) else s0);
                sb = (if eflag_atom pair \<noteq> 0 then
                        (let epairthird = THIRD * (evdwl + ecoul)
                         in add_eatom k epairthird
                              (add_eatom j epairthird (add_eatom i epairthird sa)))
                      else sa)
            in sb)
         else s0);
          s2 =
        (if vflag_either pair \<noteq> 0 then
           (let v = Vec6 (el0 drji * el0 fj + el0 drki * el0 fk)
                         (el1 drji * el1 fj + el1 drki * el1 fk)
                         (el2 drji * el2 fj + el2 drki * el2 fk)
                         (el0 drji * el1 fj + el0 drki * el1 fk)
                         (el0 drji * el2 fj + el0 drki * el2 fk)
                         (el1 drji * el2 fj + el1 drki * el2 fk);
                sa = (if vflag_global pair \<noteq> 0 then tally_virial_pair v s1 else s1);
                sb = (if vflag_atom pair \<noteq> 0 then
                        tally_vatom_scale k THIRD v
                          (tally_vatom_scale j THIRD v (tally_vatom_scale i THIRD v sa))
                      else sa)
            in sb)
         else s1)
      in s2)"

text \<open>\<^verbatim>\<open>ev_tally4_thr(pair, i, j, k, m, evdwl, fi, fj, fk, drim, drjm, drkm, thr)\<close>.\<close>

definition ev_tally4_thr ::
  "ev_flags \<Rightarrow> int \<Rightarrow> int \<Rightarrow> int \<Rightarrow> int \<Rightarrow> real \<Rightarrow> vec3 \<Rightarrow> vec3 \<Rightarrow> vec3 \<Rightarrow> vec3 \<Rightarrow> vec3 \<Rightarrow> vec3
     \<Rightarrow> tstate \<Rightarrow> tstate" where
  "ev_tally4_thr pair i j k m evdwl fi fj fk drim drjm drkm s0 =
     (let s1 =
        (if eflag_either pair \<noteq> 0 then
           (let sa = (if eflag_global pair \<noteq> 0 then add_eng_vdwl evdwl s0 else s0);
                sb = (if eflag_atom pair \<noteq> 0 then
                        (let epairfourth = 0.25 * evdwl
                         in add_eatom m epairfourth
                              (add_eatom k epairfourth
                                 (add_eatom j epairfourth (add_eatom i epairfourth sa))))
                      else sa)
            in sb)
         else s0);
          s2 =
        (if vflag_atom pair \<noteq> 0 then
           (let v = Vec6 (0.25 * (el0 drim * el0 fi + el0 drjm * el0 fj + el0 drkm * el0 fk))
                         (0.25 * (el1 drim * el1 fi + el1 drjm * el1 fj + el1 drkm * el1 fk))
                         (0.25 * (el2 drim * el2 fi + el2 drjm * el2 fj + el2 drkm * el2 fk))
                         (0.25 * (el0 drim * el1 fi + el0 drjm * el1 fj + el0 drkm * el1 fk))
                         (0.25 * (el0 drim * el2 fi + el0 drjm * el2 fj + el0 drkm * el2 fk))
                         (0.25 * (el1 drim * el2 fi + el1 drjm * el2 fj + el1 drkm * el2 fk))
            in tally_vatom m v (tally_vatom k v (tally_vatom j v (tally_vatom i v s1))))
         else s1)
      in s2)"

text \<open>\<^verbatim>\<open>ev_tally_list_thr(pair, n, list, ecoul, v, thr)\<close>. The two \<^verbatim>\<open>for\<close> loops run
  \<open>i\<close> over \<open>0, ..., n - 1\<close> and read \<^verbatim>\<open>list[i]\<close>; the array \<^verbatim>\<open>list\<close> is a HOL list,
  which the caller makes at least \<open>n\<close> long.\<close>

definition ev_tally_list_thr ::
  "ev_flags \<Rightarrow> int \<Rightarrow> int list \<Rightarrow> real \<Rightarrow> vec6 \<Rightarrow> tstate \<Rightarrow> tstate" where
  "ev_tally_list_thr pair n list ecoul v s0 =
     (let s1 =
        (if eflag_either pair \<noteq> 0 then
           (let sa = (if eflag_global pair \<noteq> 0 then add_eng_coul ecoul s0 else s0);
                sb = (if eflag_atom pair \<noteq> 0 then
                        (let epairatom = ecoul / real_of_int n
                         in fold (\<lambda>i. add_eatom (list ! i) epairatom) [0..<nat n] sa)
                      else sa)
            in sb)
         else s0);
          s2 =
        (if vflag_either pair \<noteq> 0 then
           (let sa = (if vflag_global pair \<noteq> 0 then tally_virial_pair v s1 else s1);
                sb = (if vflag_atom pair \<noteq> 0 then
                        (let s = 1.0 / real_of_int n;
                             vtmp = vscale s v
                         in fold (\<lambda>i. tally_vatom (list ! i) vtmp) [0..<nat n] sa)
                      else sa)
            in sb)
         else s1)
      in s2)"

subsection \<open>Dihedral tally\<close>

text \<open>The overload \<^verbatim>\<open>ev_tally_thr(dihed, i1, i2, i3, i4, nlocal, newton_bond, edihedral,
  f1, f3, f4, vb1x, ..., vb3z, thr)\<close>. The per-atom virial branch for \<open>newton_bond = 0\<close>
  tests \<open>i1\<close> and tallies into row \<open>i1\<close> four times, as the source does.\<close>

definition ev_tally_thr_dihed ::
  "ev_flags \<Rightarrow> int \<Rightarrow> int \<Rightarrow> int \<Rightarrow> int \<Rightarrow> int \<Rightarrow> int \<Rightarrow> real \<Rightarrow> vec3 \<Rightarrow> vec3 \<Rightarrow> vec3
     \<Rightarrow> real \<Rightarrow> real \<Rightarrow> real \<Rightarrow> real \<Rightarrow> real \<Rightarrow> real \<Rightarrow> real \<Rightarrow> real \<Rightarrow> real
     \<Rightarrow> tstate \<Rightarrow> tstate" where
  "ev_tally_thr_dihed dihed i1 i2 i3 i4 nlocal newton_bond edihedral f1 f3 f4
       vb1x vb1y vb1z vb2x vb2y vb2z vb3x vb3y vb3z s0 =
     (let s1 =
        (if eflag_either dihed \<noteq> 0 then
           (let sa =
              (if eflag_global dihed \<noteq> 0 then
                 (if newton_bond \<noteq> 0 then add_eng_bond edihedral s0
                  else
                    (let edihedralquarter = 0.25 * edihedral;
                         cnt0 = (0::int);
                         cnt1 = (if i1 < nlocal then cnt0 + 1 else cnt0);
                         cnt2 = (if i2 < nlocal then cnt1 + 1 else cnt1);
                         cnt3 = (if i3 < nlocal then cnt2 + 1 else cnt2);
                         cnt = (if i4 < nlocal then cnt3 + 1 else cnt3)
                     in add_eng_bond (real_of_int cnt * edihedralquarter) s0))
               else s0);
                sb =
              (if eflag_atom dihed \<noteq> 0 then
                 (let edihedralquarter = 0.25 * edihedral
                  in if newton_bond \<noteq> 0 then
                       add_eatom i4 edihedralquarter
                         (add_eatom i3 edihedralquarter
                            (add_eatom i2 edihedralquarter (add_eatom i1 edihedralquarter sa)))
                     else
                       (let t1 = (if i1 < nlocal then add_eatom i1 edihedralquarter sa else sa);
                            t2 = (if i2 < nlocal then add_eatom i2 edihedralquarter t1 else t1);
                            t3 = (if i3 < nlocal then add_eatom i3 edihedralquarter t2 else t2);
                            t4 = (if i4 < nlocal then add_eatom i4 edihedralquarter t3 else t3)
                        in t4))
               else sa)
            in sb)
         else s0);
          s2 =
        (if vflag_either dihed \<noteq> 0 then
           (let v = Vec6 (vb1x * el0 f1 + vb2x * el0 f3 + (vb3x + vb2x) * el0 f4)
                         (vb1y * el1 f1 + vb2y * el1 f3 + (vb3y + vb2y) * el1 f4)
                         (vb1z * el2 f1 + vb2z * el2 f3 + (vb3z + vb2z) * el2 f4)
                         (vb1x * el1 f1 + vb2x * el1 f3 + (vb3x + vb2x) * el1 f4)
                         (vb1x * el2 f1 + vb2x * el2 f3 + (vb3x + vb2x) * el2 f4)
                         (vb1y * el2 f1 + vb2y * el2 f3 + (vb3y + vb2y) * el2 f4);
                sa =
              (if vflag_global dihed \<noteq> 0 then
                 (if newton_bond \<noteq> 0 then tally_virial_dihed v s1
                  else
                    (let cnt0 = (0::int);
                         cnt1 = (if i1 < nlocal then cnt0 + 1 else cnt0);
                         cnt2 = (if i2 < nlocal then cnt1 + 1 else cnt1);
                         cnt3 = (if i3 < nlocal then cnt2 + 1 else cnt2);
                         cnt = (if i4 < nlocal then cnt3 + 1 else cnt3)
                     in tally_virial_dihed_scale (0.25 * real_of_int cnt) v s1))
               else s1);
                vq = vscale 0.25 v;
                sb =
              (if vflag_atom dihed \<noteq> 0 then
                 (if newton_bond \<noteq> 0 then
                    tally_vatom i4 vq (tally_vatom i3 vq (tally_vatom i2 vq (tally_vatom i1 vq sa)))
                  else
                    (let t1 = (if i1 < nlocal then tally_vatom i1 vq sa else sa);
                         t2 = (if i1 < nlocal then tally_vatom i1 vq t1 else t1);
                         t3 = (if i1 < nlocal then tally_vatom i1 vq t2 else t2);
                         t4 = (if i1 < nlocal then tally_vatom i1 vq t3 else t3)
                     in t4))
               else sa)
            in sb)
         else s1)
      in s2)"

subsection \<open>Per-category reduction\<close>

text \<open>Modelled from the spec: the category tags of \<^verbatim>\<open>thr_omp.h\<close>, which is not part of the
  sources at hand. The six tags are the cases of the \<^verbatim>\<open>switch\<close> in \<^verbatim>\<open>reduce_thr\<close>;
  \<open>THR_OTHER\<close> is any other value of the \<^verbatim>\<open>int\<close>, for which the \<^verbatim>\<open>switch\<close> has no
  case.\<close>

datatype thr_style =
  THR_PAIR | THR_BOND | THR_ANGLE | THR_DIHEDRAL | THR_IMPROPER | THR_KSPACE | THR_OTHER int

text \<open>What \<^verbatim>\<open>reduce_thr\<close> reads through \<^verbatim>\<open>lmp\<close> and \<^verbatim>\<open>fix\<close> and does not write:
  the three atom counts of \<^verbatim>\<open>lmp->atom\<close>, \<^verbatim>\<open>comm->nthreads\<close>, \<^verbatim>\<open>neighbor->includegroup\<close>, whether
  \<^verbatim>\<open>atom->torque\<close> is a non-null pointer, \<^verbatim>\<open>fix->last_omp_style\<close> and
  \<^verbatim>\<open>force->pair->vflag_fdotr\<close>.\<close>

record lammps =
  atom_nlocal :: int
  atom_nghost :: int
  atom_nfirst :: int
  comm_nthreads :: int
  neighbor_includegroup :: int
  atom_torque_present :: bool
  fix_last_omp_style :: thr_style
  pair_vflag_fdotr :: int

text \<open>The shared totals of the six category objects under \<^verbatim>\<open>lmp->force\<close>.\<close>

record totals =
  pair_eng_vdwl :: real
  pair_eng_coul :: real
  pair_virial :: vec6
  bond_energy :: real
  bond_virial :: vec6
  angle_energy :: real
  angle_virial :: vec6
  dihedral_energy :: real
  dihedral_virial :: vec6
  improper_energy :: real
  improper_virial :: vec6
  kspace_energy :: real
  kspace_virial :: vec6

text \<open>The calls \<^verbatim>\<open>reduce_thr\<close> makes to functions defined elsewhere are recorded in the
  order they are made: \<^verbatim>\<open>sync_threads()\<close>, \<^verbatim>\<open>thr->virial_fdotr_compute(x, nlocal,
  nghost, nfirst)\<close> with its three integers, and \<^verbatim>\<open>data_reduce_thr(array, nall, nthreads,
  width, tid)\<close> with the array it is given and its four integers.\<close>

datatype array_id = Force_array | Torque_array

datatype call =
  Sync_threads
  | Virial_fdotr_compute int int int
  | Data_reduce_thr array_id int int int int

record rstate =
  r_thr :: ThrData
  r_tot :: totals
  r_calls :: "call list"

definition sync_threads :: "rstate \<Rightarrow> rstate" where
  "sync_threads r = r\<lparr>r_calls := r_calls r @ [Sync_threads]\<rparr>"

definition data_reduce_thr :: "array_id \<Rightarrow> int \<Rightarrow> int \<Rightarrow> int \<Rightarrow> int \<Rightarrow> rstate \<Rightarrow> rstate" where
  "data_reduce_thr a ndata nthr nper t r =
     r\<lparr>r_calls := r_calls r @ [Data_reduce_thr a ndata nthr nper t]\<rparr>"

text \<open>\<^verbatim>\<open>ThrData::virial_fdotr_compute\<close> is not part of the sources at hand: what it does to
  the accumulator is the parameter \<open>fdotr\<close>, a function of its three integers.\<close>

definition virial_fdotr_compute ::
  "(int \<Rightarrow> int \<Rightarrow> int \<Rightarrow> ThrData \<Rightarrow> ThrData) \<Rightarrow> int \<Rightarrow> int \<Rightarrow> int \<Rightarrow> rstate \<Rightarrow> rstate" where
  "virial_fdotr_compute fdotr nl ng nf r =
     r\<lparr>r_thr := fdotr nl ng nf (r_thr r),
       r_calls := r_calls r @ [Virial_fdotr_compute nl ng nf]\<rparr>"

text \<open>\<^verbatim>\<open>reduce_thr(eflag, vflag, thr)\<close> of an object whose \<^verbatim>\<open>thr_style\<close> is the third
  argument.\<close>

definition reduce_thr ::
  "(int \<Rightarrow> int \<Rightarrow> int \<Rightarrow> ThrData \<Rightarrow> ThrData) \<Rightarrow> lammps \<Rightarrow> thr_style \<Rightarrow> int \<Rightarrow> int
     \<Rightarrow> rstate \<Rightarrow> rstate" where
  "reduce_thr fdotr lmp style eflag vflag r0 =
     (let nall = atom_nlocal lmp + atom_nghost lmp;
          evflag = eflag OR vflag;
          t = tid (r_thr r0);
          r1 =
        (case style of
           THR_PAIR \<Rightarrow>
             (let ra =
                (if pair_vflag_fdotr lmp \<noteq> 0 then
                   (let rs = sync_threads r0
                    in if neighbor_includegroup lmp = 0
                       then virial_fdotr_compute fdotr (atom_nlocal lmp) (atom_nghost lmp) (- 1) rs
                       else virial_fdotr_compute fdotr (atom_nlocal lmp) (atom_nghost lmp) (atom_nfirst lmp) rs)
                 else r0);
                  rb =
                (if evflag \<noteq> 0 then
                   (let rs = sync_threads ra;
                        rc = (if eflag AND 1 \<noteq> 0 then
                                rs\<lparr>r_tot := (r_tot rs)
                                   \<lparr>pair_eng_vdwl := pair_eng_vdwl (r_tot rs) + eng_vdwl (r_thr rs),
                                    pair_eng_coul := pair_eng_coul (r_tot rs) + eng_coul (r_thr rs)\<rparr>\<rparr>
                              else rs);
                        rd = (if vflag AND 3 \<noteq> 0 then
                                rc\<lparr>r_tot := (r_tot rc)
                                   \<lparr>pair_virial := pair_virial (r_tot rc) + virial_pair (r_thr rc)\<rparr>\<rparr>
                              else rc)
                    in rd)
                 else ra)
              in rb)
         | THR_BOND \<Rightarrow>
             r0\<lparr>r_tot := (r_tot r0)
                \<lparr>bond_energy := bond_energy (r_tot r0) + eng_bond (r_thr r0),
                 bond_virial := bond_virial (r_tot r0) + virial_bond (r_thr r0)\<rparr>\<rparr>
         | THR_ANGLE \<Rightarrow>
             r0\<lparr>r_tot := (r_tot r0)
                \<lparr>angle_energy := angle_energy (r_tot r0) + eng_angle (r_thr r0),
                 angle_virial := angle_virial (r_tot r0) + virial_angle (r_thr r0)\<rparr>\<rparr>
         | THR_DIHEDRAL \<Rightarrow>
             r0\<lparr>r_tot := (r_tot r0)
                \<lparr>dihedral_energy := dihedral_energy (r_tot r0) + eng_dihed (r_thr r0),
                 dihedral_virial := dihedral_virial (r_tot r0) + virial_dihed (r_thr r0)\<rparr>\<rparr>
         | THR_IMPROPER \<Rightarrow>
             r0\<lparr>r_tot := (r_tot r0)
                \<lparr>improper_energy := improper_energy (r_tot r0) + eng_imprp (r_thr r0),
                 improper_virial := improper_virial (r_tot r0) + virial_imprp (r_thr r0)\<rparr>\<rparr>
         | THR_KSPACE \<Rightarrow>
             r0\<lparr>r_tot := (r_tot r0)
                \<lparr>kspace_energy := kspace_energy (r_tot r0) + eng_kspce (r_thr r0),
                 kspace_virial := kspace_virial (r_tot r0) + virial_kspce (r_thr r0)\<rparr>\<rparr>
         | THR_OTHER _ \<Rightarrow> r0);
          r2 =
        (if style = fix_last_omp_style lmp then
           (let rs = sync_threads r1;
                rf = data_reduce_thr Force_array nall (comm_nthreads lmp) 3 t rs;
                rt = (if atom_torque_present lmp
                      then data_reduce_thr Torque_array nall (comm_nthreads lmp) 3 t rf else rf)
            in rt)
         else r1)
      in r2)"

text \<open>The reduction step of a category: every thread of the team calls \<^verbatim>\<open>reduce_thr\<close> on
  its own accumulator. The updates of the shared totals are inside critical sections, so
  they take effect one thread after the other; the list holds the accumulators in that
  order. The result is the accumulators and the shared totals when the step is over.\<close>

fun reduce_step ::
  "(int \<Rightarrow> int \<Rightarrow> int \<Rightarrow> ThrData \<Rightarrow> ThrData) \<Rightarrow> lammps \<Rightarrow> thr_style \<Rightarrow> int \<Rightarrow> int
     \<Rightarrow> ThrData list \<Rightarrow> totals \<Rightarrow> ThrData list \<times> totals" where
  "reduce_step fdotr lmp style eflag vflag [] tot = ([], tot)"
| "reduce_step fdotr lmp style eflag vflag (thr # thrs) tot =
     (let r = reduce_thr fdotr lmp style eflag vflag \<lparr>r_thr = thr, r_tot = tot, r_calls = []\<rparr>;
          rest = reduce_step fdotr lmp style eflag vflag thrs (r_tot r)
      in (r_thr r # fst rest, snd rest))"

text \<open>The virial \<^verbatim>\<open>ev_tally3_thr\<close> builds from its four vectors, and the sum that
  \<^verbatim>\<open>ev_tally4_thr\<close> multiplies by 0.25, component by component.\<close>

definition virial3 :: "vec3 \<Rightarrow> vec3 \<Rightarrow> vec3 \<Rightarrow> vec3 \<Rightarrow> vec6" where
  "virial3 fj fk drji drki =
     Vec6 (el0 drji * el0 fj + el0 drki * el0 fk)
          (el1 drji * el1 fj + el1 drki * el1 fk)
          (el2 drji * el2 fj + el2 drki * el2 fk)
          (el0 drji * el1 fj + el0 drki * el1 fk)
          (el0 drji * el2 fj + el0 drki * el2 fk)
          (el1 drji * el2 fj + el1 drki * el2 fk)"

definition virial4 :: "vec3 \<Rightarrow> vec3 \<Rightarrow> vec3 \<Rightarrow> vec3 \<Rightarrow> vec3 \<Rightarrow> vec3 \<Rightarrow> vec6" where
  "virial4 fi fj fk drim drjm drkm =
     Vec6 (el0 drim * el0 fi + el0 drjm * el0 fj + el0 drkm * el0 fk)
          (el1 drim * el1 fi + el1 drjm * el1 fj + el1 drkm * el1 fk)
          (el2 drim * el2 fi + el2 drjm * el2 fj + el2 drkm * el2 fk)
          (el0 drim * el1 fi + el0 drjm * el1 fj + el0 drkm * el1 fk)
          (el0 drim * el2 fi + el0 drjm * el2 fj + el0 drkm * el2 fk)
          (el1 drim * el2 fi + el1 drjm * el2 fj + el1 drkm * el2 fk)"

text \<open>The calls of \<^verbatim>\<open>data_reduce_thr\<close> among the recorded calls.\<close>

fun is_data_reduce :: "call \<Rightarrow> bool" where
  "is_data_reduce (Data_reduce_thr a ndata nthr nper t) = True"
| "is_data_reduce c = False"

text \<open>The accumulator of a thread when \<^verbatim>\<open>reduce_thr\<close> of the pair category reaches its
  critical section: after the call of \<^verbatim>\<open>virial_fdotr_compute\<close> when
  \<^verbatim>\<open>pair->vflag_fdotr\<close> is set, untouched otherwise.\<close>

definition after_fdotr :: "(int \<Rightarrow> int \<Rightarrow> int \<Rightarrow> ThrData \<Rightarrow> ThrData) \<Rightarrow> lammps \<Rightarrow> ThrData \<Rightarrow> ThrData" where
  "after_fdotr fdotr lmp thr =
     (if pair_vflag_fdotr lmp \<noteq> 0 then
        fdotr (atom_nlocal lmp) (atom_nghost lmp)
          (if neighbor_includegroup lmp = 0 then - 1 else atom_nfirst lmp) thr
      else thr)"

subsection \<open>Concrete inputs\<close>

text \<open>An accumulator of thread 0 with every sum 0 and both slices at index 0, buffers that
  hold 0 everywhere, and a category object with every request flag set.\<close>

definition thr0 :: ThrData where
  "thr0 = \<lparr>tid = 0, eng_vdwl = 0, eng_coul = 0, eng_bond = 0, eng_angle = 0, eng_dihed = 0,
           eng_imprp = 0, eng_kspce = 0, virial_pair = 0, virial_bond = 0, virial_angle = 0,
           virial_dihed = 0, virial_imprp = 0, virial_kspce = 0, eatom_ptr = 0, vatom_ptr = 0\<rparr>"

definition store0 :: atom_store where
  "store0 = \<lparr>eatom_mem = (\<lambda>_. 0), vatom_mem = (\<lambda>_. 0)\<rparr>"

definition all_flags :: ev_flags where
  "all_flags = \<lparr>eflag_either = 1, eflag_global = 1, eflag_atom = 1,
                vflag_either = 1, vflag_global = 1, vflag_atom = 1\<rparr>"

text \<open>Shared totals that are all 0, an environment with 3 local and 2 ghost atoms, 2
  threads, no torque array and the position-dot-force virial switched off, and a
  \<^verbatim>\<open>virial_fdotr_compute\<close> that leaves the accumulator alone.\<close>

definition tot0 :: totals where
  "tot0 = \<lparr>pair_eng_vdwl = 0, pair_eng_coul = 0, pair_virial = 0, bond_energy = 0,
            bond_virial = 0, angle_energy = 0, angle_virial = 0, dihedral_energy = 0,
            dihedral_virial = 0, improper_energy = 0, improper_virial = 0, kspace_energy = 0,
            kspace_virial = 0\<rparr>"

definition lmp0 :: lammps where
  "lmp0 = \<lparr>atom_nlocal = 3, atom_nghost = 2, atom_nfirst = 0, comm_nthreads = 2,
            neighbor_includegroup = 0, atom_torque_present = False,
            fix_last_omp_style = THR_KSPACE, pair_vflag_fdotr = 0\<rparr>"

definition no_fdotr :: "int \<Rightarrow> int \<Rightarrow> int \<Rightarrow> ThrData \<Rightarrow> ThrData" where
  "no_fdotr nl ng nf thr = thr"

text \<open>An accumulator of thread 0 that holds energies 1 and 2 and a pair virial of ones.\<close>

definition thr1 :: ThrData where
  "thr1 = thr0\<lparr>eng_vdwl := 1, eng_coul := 2, virial_pair := Vec6 1 1 1 1 1 1\<rparr>"

section \<open>Auxiliary lemmas\<close>

text \<open>The helpers add componentwise; each statement of a tally changes one sum or one
  slot and leaves the others as they are.\<close>

lemma v_tally_plus: "v_tally a b = a + b"
  by (cases a, cases b) simp

lemma v_tally_scale_plus: "v_tally_scale a s b = a + vscale s b"
  by (cases a, cases b) simp

lemma vscale_zero [simp]: "vscale 0 w = 0"
  by (cases w) (simp add: zero_vec6_def)

lemma vscale_one [simp]: "vscale 1 w = w"
  by (cases w) simp

lemma vscale_add: "vscale (a + b) w = vscale a w + vscale b w"
  by (cases w) (simp add: algebra_simps)

lemma vscale_vscale: "vscale a (vscale b w) = vscale (a * b) w"
  by (cases w) simp

lemmas stmt_defs = add_eng_vdwl_def add_eng_coul_def add_eng_bond_def add_eatom_def
  tally_virial_pair_def tally_virial_pair_scale_def tally_virial_dihed_def
  tally_virial_dihed_scale_def tally_vatom_def tally_vatom_scale_def

lemma eatom_at_frame:
  "eatom_at (add_eatom i e s) x = eatom_at s x + (if x = i then e else 0)"
  "eatom_at (add_eng_vdwl e s) x = eatom_at s x"
  "eatom_at (add_eng_coul e s) x = eatom_at s x"
  "eatom_at (add_eng_bond e s) x = eatom_at s x"
  "eatom_at (tally_virial_pair v s) x = eatom_at s x"
  "eatom_at (tally_virial_pair_scale c v s) x = eatom_at s x"
  "eatom_at (tally_virial_dihed v s) x = eatom_at s x"
  "eatom_at (tally_virial_dihed_scale c v s) x = eatom_at s x"
  "eatom_at (tally_vatom i v s) x = eatom_at s x"
  "eatom_at (tally_vatom_scale i c v s) x = eatom_at s x"
  by (simp_all add: eatom_at_def stmt_defs)

lemma vatom_at_frame:
  "vatom_at (tally_vatom i v s) x = vatom_at s x + (if x = i then v else 0)"
  "vatom_at (tally_vatom_scale i c v s) x = vatom_at s x + (if x = i then vscale c v else 0)"
  "vatom_at (add_eatom i e s) x = vatom_at s x"
  "vatom_at (add_eng_vdwl e s) x = vatom_at s x"
  "vatom_at (add_eng_coul e s) x = vatom_at s x"
  "vatom_at (add_eng_bond e s) x = vatom_at s x"
  "vatom_at (tally_virial_pair v s) x = vatom_at s x"
  "vatom_at (tally_virial_pair_scale c v s) x = vatom_at s x"
  "vatom_at (tally_virial_dihed v s) x = vatom_at s x"
  "vatom_at (tally_virial_dihed_scale c v s) x = vatom_at s x"
  by (simp_all add: vatom_at_def stmt_defs v_tally_plus v_tally_scale_plus)

lemma eng_vdwl_frame:
  "eng_vdwl (fst (add_eng_vdwl e s)) = eng_vdwl (fst s) + e"
  "eng_vdwl (fst (add_eng_coul e s)) = eng_vdwl (fst s)"
  "eng_vdwl (fst (add_eng_bond e s)) = eng_vdwl (fst s)"
  "eng_vdwl (fst (add_eatom i e s)) = eng_vdwl (fst s)"
  "eng_vdwl (fst (tally_virial_pair v s)) = eng_vdwl (fst s)"
  "eng_vdwl (fst (tally_virial_pair_scale c v s)) = eng_vdwl (fst s)"
  "eng_vdwl (fst (tally_virial_dihed v s)) = eng_vdwl (fst s)"
  "eng_vdwl (fst (tally_virial_dihed_scale c v s)) = eng_vdwl (fst s)"
  "eng_vdwl (fst (tally_vatom i v s)) = eng_vdwl (fst s)"
  "eng_vdwl (fst (tally_vatom_scale i c v s)) = eng_vdwl (fst s)"
  by (simp_all add: stmt_defs)

lemma eng_coul_frame:
  "eng_coul (fst (add_eng_coul e s)) = eng_coul (fst s) + e"
  "eng_coul (fst (add_eng_vdwl e s)) = eng_coul (fst s)"
  "eng_coul (fst (add_eng_bond e s)) = eng_coul (fst s)"
  "eng_coul (fst (add_eatom i e s)) = eng_coul (fst s)"
  "eng_coul (fst (tally_virial_pair v s)) = eng_coul (fst s)"
  "eng_coul (fst (tally_virial_pair_scale c v s)) = eng_coul (fst s)"
  "eng_coul (fst (tally_virial_dihed v s)) = eng_coul (fst s)"
  "eng_coul (fst (tally_virial_dihed_scale c v s)) = eng_coul (fst s)"
  "eng_coul (fst (tally_vatom i v s)) = eng_coul (fst s)"
  "eng_coul (fst (tally_vatom_scale i c v s)) = eng_coul (fst s)"
  by (simp_all add: stmt_defs)

lemma eng_bond_frame:
  "eng_bond (fst (add_eng_bond e s)) = eng_bond (fst s) + e"
  "eng_bond (fst (add_eng_vdwl e s)) = eng_bond (fst s)"
  "eng_bond (fst (add_eng_coul e s)) = eng_bond (fst s)"
  "eng_bond (fst (add_eatom i e s)) = eng_bond (fst s)"
  "eng_bond (fst (tally_virial_pair v s)) = eng_bond (fst s)"
  "eng_bond (fst (tally_virial_pair_scale c v s)) = eng_bond (fst s)"
  "eng_bond (fst (tally_virial_dihed v s)) = eng_bond (fst s)"
  "eng_bond (fst (tally_virial_dihed_scale c v s)) = eng_bond (fst s)"
  "eng_bond (fst (tally_vatom i v s)) = eng_bond (fst s)"
  "eng_bond (fst (tally_vatom_scale i c v s)) = eng_bond (fst s)"
  by (simp_all add: stmt_defs)

lemma eng_dihed_frame:
  "eng_dihed (fst (add_eng_bond e s)) = eng_dihed (fst s)"
  "eng_dihed (fst (add_eng_vdwl e s)) = eng_dihed (fst s)"
  "eng_dihed (fst (add_eng_coul e s)) = eng_dihed (fst s)"
  "eng_dihed (fst (add_eatom i e s)) = eng_dihed (fst s)"
  "eng_dihed (fst (tally_virial_pair v s)) = eng_dihed (fst s)"
  "eng_dihed (fst (tally_virial_pair_scale c v s)) = eng_dihed (fst s)"
  "eng_dihed (fst (tally_virial_dihed v s)) = eng_dihed (fst s)"
  "eng_dihed (fst (tally_virial_dihed_scale c v s)) = eng_dihed (fst s)"
  "eng_dihed (fst (tally_vatom i v s)) = eng_dihed (fst s)"
  "eng_dihed (fst (tally_vatom_scale i c v s)) = eng_dihed (fst s)"
  by (simp_all add: stmt_defs)

lemma virial_pair_frame:
  "virial_pair (fst (tally_virial_pair v s)) = virial_pair (fst s) + v"
  "virial_pair (fst (tally_virial_pair_scale c v s)) = virial_pair (fst s) + vscale c v"
  "virial_pair (fst (add_eng_bond e s)) = virial_pair (fst s)"
  "virial_pair (fst (add_eng_vdwl e s)) = virial_pair (fst s)"
  "virial_pair (fst (add_eng_coul e s)) = virial_pair (fst s)"
  "virial_pair (fst (add_eatom i e s)) = virial_pair (fst s)"
  "virial_pair (fst (tally_virial_dihed v s)) = virial_pair (fst s)"
  "virial_pair (fst (tally_virial_dihed_scale c v s)) = virial_pair (fst s)"
  "virial_pair (fst (tally_vatom i v s)) = virial_pair (fst s)"
  "virial_pair (fst (tally_vatom_scale i c v s)) = virial_pair (fst s)"
  by (simp_all add: stmt_defs v_tally_plus v_tally_scale_plus)

lemma virial_dihed_frame:
  "virial_dihed (fst (tally_virial_dihed v s)) = virial_dihed (fst s) + v"
  "virial_dihed (fst (tally_virial_dihed_scale c v s)) = virial_dihed (fst s) + vscale c v"
  "virial_dihed (fst (add_eng_bond e s)) = virial_dihed (fst s)"
  "virial_dihed (fst (add_eng_vdwl e s)) = virial_dihed (fst s)"
  "virial_dihed (fst (add_eng_coul e s)) = virial_dihed (fst s)"
  "virial_dihed (fst (add_eatom i e s)) = virial_dihed (fst s)"
  "virial_dihed (fst (tally_virial_pair v s)) = virial_dihed (fst s)"
  "virial_dihed (fst (tally_virial_pair_scale c v s)) = virial_dihed (fst s)"
  "virial_dihed (fst (tally_vatom i v s)) = virial_dihed (fst s)"
  "virial_dihed (fst (tally_vatom_scale i c v s)) = virial_dihed (fst s)"
  by (simp_all add: stmt_defs v_tally_plus v_tally_scale_plus)

lemmas frame = eatom_at_frame vatom_at_frame eng_vdwl_frame eng_coul_frame eng_bond_frame
  eng_dihed_frame virial_pair_frame virial_dihed_frame

lemma sum_count_list_set: "(\<Sum>x\<in>set xs. real (count_list xs x)) = real (length xs)"
  using sum_count_set [of xs "set xs"] by (simp flip: of_nat_sum)

lemma sum_increments:
  assumes "\<And>x. g x = f x + real (count_list xs x) * e"
  shows "(\<Sum>x\<in>set xs. g x - f x) = real (length xs) * e"
proof -
  have "(\<Sum>x\<in>set xs. g x - f x) = (\<Sum>x\<in>set xs. real (count_list xs x) * e)"
    by (simp add: assms)
  also have "\<dots> = (\<Sum>x\<in>set xs. real (count_list xs x)) * e"
    by (simp add: sum_distrib_right)
  finally show ?thesis
    by (simp add: sum_count_list_set)
qed

lemma ev_tally3_eatom:
  assumes "eflag_either pair \<noteq> 0" and "eflag_atom pair \<noteq> 0"
  shows "eatom_at (ev_tally3_thr pair i j k evdwl ecoul fj fk drji drki s) x =
           eatom_at s x + real (count_list [i, j, k] x) * (THIRD * (evdwl + ecoul))"
  using assms 
  by (simp add: ev_tally3_thr_def Let_def frame)

lemma ev_tally4_eatom:
  assumes "eflag_either pair \<noteq> 0" and "eflag_atom pair \<noteq> 0"
  shows "eatom_at (ev_tally4_thr pair i j k m evdwl fi fj fk drim drjm drkm s) x =
           eatom_at s x + real (count_list [i, j, k, m] x) * (0.25 * evdwl)"
  using assms 
  by (simp add: ev_tally4_thr_def Let_def frame)

lemma count3_vec6:
  "a + (if x = i then w else 0) + (if x = j then w else 0) + (if x = k then w else 0) =
     a + vscale (real (count_list [i, j, k] x)) (w::vec6)"
  by (cases w; cases a) (auto simp: zero_vec6_def)

lemma count4_vec6:
  "a + (if x = i then w else 0) + (if x = j then w else 0) + (if x = k then w else 0)
     + (if x = m then w else 0) =
     a + vscale (real (count_list [i, j, k, m] x)) (w::vec6)"
  by (cases w; cases a) (auto simp: zero_vec6_def)

lemma fold_nth: "fold (\<lambda>i. f (xs ! i)) [0..<length xs] s = fold f xs s"
proof -
  have "fold f (map ((!) xs) [0..<length xs]) s = fold (f \<circ> (!) xs) [0..<length xs] s"
    by (simp only: fold_map)
  then show ?thesis
    by (simp add: map_nth comp_def)
qed

lemma fold_tally_vatom:
  "vatom_at (fold (\<lambda>a. tally_vatom a w) xs s) x = vatom_at s x + vscale (real (count_list xs x)) w"
  by (induction xs arbitrary: s) (simp_all add: frame vscale_add add.assoc)

lemma fold_tally_vatom_virial_pair:
  "virial_pair (fst (fold (\<lambda>a. tally_vatom a w) xs s)) = virial_pair (fst s)"
  by (induction xs arbitrary: s) (simp_all add: frame)

lemma fold_add_eatom_vatom:
  "vatom_at (fold (\<lambda>a. add_eatom a e) xs s) x = vatom_at s x"
  by (induction xs arbitrary: s) (simp_all add: frame)

lemma fold_add_eatom_virial_pair:
  "virial_pair (fst (fold (\<lambda>a. add_eatom a e) xs s)) = virial_pair (fst s)"
  by (induction xs arbitrary: s) (simp_all add: frame)

lemma sum_vscale: "(\<Sum>x\<in>A. vscale (f x) w) = vscale (\<Sum>x\<in>A. f x) w"
  by (induction A rule: infinite_finite_induct) (simp_all add: vscale_add)

lemma sum_increments_vec6:
  assumes "\<And>x. g x = f x + vscale (real (count_list xs x)) (w::vec6)"
  shows "(\<Sum>x\<in>set xs. g x - f x) = vscale (real (length xs)) w"
proof -
  have "(\<Sum>x\<in>set xs. g x - f x) = (\<Sum>x\<in>set xs. vscale (real (count_list xs x)) w)"
    by (simp add: assms)
  also have "\<dots> = vscale (\<Sum>x\<in>set xs. real (count_list xs x)) w"
    by (rule sum_vscale)
  finally show ?thesis
    by (simp add: sum_count_list_set)
qed



lemma fold_nth_tally_vatom:
  "fold (\<lambda>i. tally_vatom (xs ! i) w) [0..<length xs] s = fold (\<lambda>a. tally_vatom a w) xs s"
  by (rule fold_nth)

lemma fold_nth_add_eatom:
  "fold (\<lambda>i. add_eatom (xs ! i) e) [0..<length xs] s = fold (\<lambda>a. add_eatom a e) xs s"
  by (rule fold_nth)

lemma ev_tally_list_vatom:
  assumes "vflag_either pair \<noteq> 0" and "vflag_atom pair \<noteq> 0" and "nat n = length list"
  shows "vatom_at (ev_tally_list_thr pair n list ecoul v s) x =
      vatom_at s x + vscale (real (count_list list x)) (vscale (1 / real_of_int n) v)"
  using assms
  by (simp add: ev_tally_list_thr_def Let_def fold_nth_tally_vatom fold_nth_add_eatom
      fold_tally_vatom fold_add_eatom_vatom frame)

lemma ev_tally_list_virial_pair:
  assumes "vflag_either pair \<noteq> 0" and "vflag_global pair \<noteq> 0" and "nat n = length list"
  shows "virial_pair (fst (ev_tally_list_thr pair n list ecoul v s)) = virial_pair (fst s) + v"
  using assms
  by (simp add: ev_tally_list_thr_def Let_def fold_nth_tally_vatom fold_nth_add_eatom
      fold_tally_vatom_virial_pair fold_add_eatom_virial_pair frame)

lemma dihed_eng_bond:
  assumes "eflag_either dihed \<noteq> 0" and "eflag_global dihed \<noteq> 0"
  shows "eng_bond (fst (ev_tally_thr_dihed dihed i1 i2 i3 i4 nlocal newton_bond edihedral f1 f3 f4
             vb1x vb1y vb1z vb2x vb2y vb2z vb3x vb3y vb3z s)) =
           eng_bond (fst s) +
             (if newton_bond \<noteq> 0 then edihedral
              else real (length (filter (\<lambda>i. i < nlocal) [i1, i2, i3, i4])) * (0.25 * edihedral))"
  using assms by (simp add: ev_tally_thr_dihed_def Let_def frame)

lemma dihed_eng_dihed:
  "eng_dihed (fst (ev_tally_thr_dihed dihed i1 i2 i3 i4 nlocal newton_bond edihedral f1 f3 f4
             vb1x vb1y vb1z vb2x vb2y vb2z vb3x vb3y vb3z s)) = eng_dihed (fst s)"
  by (simp add: ev_tally_thr_dihed_def Let_def frame)

lemma reduce_thr_dihedral_energy:
  "dihedral_energy (r_tot (reduce_thr fdotr lmp THR_DIHEDRAL eflag vflag r)) =
     dihedral_energy (r_tot r) + eng_dihed (r_thr r)"
  by (simp add: reduce_thr_def Let_def sync_threads_def data_reduce_thr_def)

lemmas call_defs = sync_threads_def data_reduce_thr_def virial_fdotr_compute_def

lemma and_nonzero_or: "e AND k \<noteq> 0 \<Longrightarrow> e OR v \<noteq> 0" for e v k :: int
  by (auto simp: or_eq_0_iff)

lemma and_nonzero_or2: "v AND k \<noteq> 0 \<Longrightarrow> e OR v \<noteq> 0" for e v k :: int
  by (auto simp: or_eq_0_iff)

lemma reduce_thr_thr:
  "r_thr (reduce_thr fdotr lmp style eflag vflag r) =
     (if style = THR_PAIR then after_fdotr fdotr lmp (r_thr r) else r_thr r)"
  by (cases style) (simp_all add: reduce_thr_def Let_def call_defs after_fdotr_def)

lemma reduce_thr_pair:
  "pair_eng_vdwl (r_tot (reduce_thr fdotr lmp THR_PAIR eflag vflag r)) =
     pair_eng_vdwl (r_tot r) + (if eflag AND 1 \<noteq> 0 then eng_vdwl (after_fdotr fdotr lmp (r_thr r)) else 0)"
  "pair_eng_coul (r_tot (reduce_thr fdotr lmp THR_PAIR eflag vflag r)) =
     pair_eng_coul (r_tot r) + (if eflag AND 1 \<noteq> 0 then eng_coul (after_fdotr fdotr lmp (r_thr r)) else 0)"
  "pair_virial (r_tot (reduce_thr fdotr lmp THR_PAIR eflag vflag r)) =
     pair_virial (r_tot r) + (if vflag AND 3 \<noteq> 0 then virial_pair (after_fdotr fdotr lmp (r_thr r)) else 0)"
  by (auto simp: reduce_thr_def Let_def call_defs after_fdotr_def and_nonzero_or and_nonzero_or2)

lemma reduce_thr_bonded:
  "bond_energy (r_tot (reduce_thr fdotr lmp THR_BOND eflag vflag r)) =
     bond_energy (r_tot r) + eng_bond (r_thr r)"
  "bond_virial (r_tot (reduce_thr fdotr lmp THR_BOND eflag vflag r)) =
     bond_virial (r_tot r) + virial_bond (r_thr r)"
  "angle_energy (r_tot (reduce_thr fdotr lmp THR_ANGLE eflag vflag r)) =
     angle_energy (r_tot r) + eng_angle (r_thr r)"
  "angle_virial (r_tot (reduce_thr fdotr lmp THR_ANGLE eflag vflag r)) =
     angle_virial (r_tot r) + virial_angle (r_thr r)"
  "dihedral_energy (r_tot (reduce_thr fdotr lmp THR_DIHEDRAL eflag vflag r)) =
     dihedral_energy (r_tot r) + eng_dihed (r_thr r)"
  "dihedral_virial (r_tot (reduce_thr fdotr lmp THR_DIHEDRAL eflag vflag r)) =
     dihedral_virial (r_tot r) + virial_dihed (r_thr r)"
  "improper_energy (r_tot (reduce_thr fdotr lmp THR_IMPROPER eflag vflag r)) =
     improper_energy (r_tot r) + eng_imprp (r_thr r)"
  "improper_virial (r_tot (reduce_thr fdotr lmp THR_IMPROPER eflag vflag r)) =
     improper_virial (r_tot r) + virial_imprp (r_thr r)"
  "kspace_energy (r_tot (reduce_thr fdotr lmp THR_KSPACE eflag vflag r)) =
     kspace_energy (r_tot r) + eng_kspce (r_thr r)"
  "kspace_virial (r_tot (reduce_thr fdotr lmp THR_KSPACE eflag vflag r)) =
     kspace_virial (r_tot r) + virial_kspce (r_thr r)"
  by (simp_all add: reduce_thr_def Let_def call_defs)

lemma reduce_step_sum:
  fixes proj :: "totals \<Rightarrow> 'a::monoid_add"
  assumes "\<And>thr tot. proj (r_tot (reduce_thr fdotr lmp style eflag vflag
               \<lparr>r_thr = thr, r_tot = tot, r_calls = []\<rparr>)) = proj tot + loc thr"
  shows "proj (snd (reduce_step fdotr lmp style eflag vflag thrs tot)) =
           proj tot + sum_list (map loc thrs)"
  by (induction thrs arbitrary: tot) (simp_all add: Let_def assms add.assoc)

lemma sum_list_gate:
  "sum_list (map (\<lambda>t. if c then f t else 0) xs) = (if c then sum_list (map f xs) else (0::'a::monoid_add))"
  by (induction xs) simp_all

section \<open>Setup\<close>

text \<open>
  C10. The setup operation stores the shared per-atom energy buffer offset by
  \<open>tid * nall\<close> in the accumulator exactly when the per-atom energy bit (2) of \<open>eflag\<close>
  is set, stores the shared per-atom stress buffer with the same offset exactly when the
  per-atom stress bit (4) of \<open>vflag\<close> is set, leaves the pointer of a flag that is not
  requested as it was, and changes nothing else in the accumulator.
\<close>

theorem ev_setup_thr_slices:
  "eatom_ptr (ev_setup_thr eflag vflag nall eatom vatom thr) =
     (if eflag AND 2 \<noteq> 0 then eatom + tid thr * nall else eatom_ptr thr)
   \<and> vatom_ptr (ev_setup_thr eflag vflag nall eatom vatom thr) =
     (if vflag AND 4 \<noteq> 0 then vatom + tid thr * nall else vatom_ptr thr)
   \<and> ev_setup_thr eflag vflag nall eatom vatom thr =
       thr\<lparr>eatom_ptr := eatom_ptr (ev_setup_thr eflag vflag nall eatom vatom thr),
           vatom_ptr := vatom_ptr (ev_setup_thr eflag vflag nall eatom vatom thr)\<rparr>"
  by (simp add: ev_setup_thr_def Let_def)

section \<open>Pairwise tally\<close>

text \<open>
  C3. With global energy and global virial accounting enabled, a pairwise tally in newton
  mode adds the full \<open>evdwl\<close>, the full \<open>ecoul\<close> and the full virial to the calling
  thread's totals whatever \<open>i\<close> and \<open>j\<close> are; in half mode it adds half of each once for
  each of \<open>i\<close> and \<open>j\<close> that is below \<open>nlocal\<close>. So a pair of two ghosts adds nothing in
  half mode and the full value in newton mode.
\<close>

theorem pair_tally_global:
  assumes "eflag_global pair \<noteq> 0" and "vflag_global pair \<noteq> 0"
  shows "eng_vdwl (fst (e_tally_thr pair i j nlocal newton_pair evdwl ecoul s)) =
           eng_vdwl (fst s) +
             (if newton_pair \<noteq> 0 then evdwl
              else (if i < nlocal then 0.5 * evdwl else 0) + (if j < nlocal then 0.5 * evdwl else 0))
       \<and> eng_coul (fst (e_tally_thr pair i j nlocal newton_pair evdwl ecoul s)) =
           eng_coul (fst s) +
             (if newton_pair \<noteq> 0 then ecoul
              else (if i < nlocal then 0.5 * ecoul else 0) + (if j < nlocal then 0.5 * ecoul else 0))
       \<and> virial_pair (fst (v_tally_thr pair i j nlocal newton_pair v s)) =
           virial_pair (fst s) +
             (if newton_pair \<noteq> 0 then v
              else (if i < nlocal then vscale 0.5 v else 0) + (if j < nlocal then vscale 0.5 v else 0))"
  using assms
  by (simp add: e_tally_thr_def v_tally_thr_def Let_def frame)

text \<open>Atoms 5 and 6 with \<open>nlocal = 3\<close> are both ghosts: nothing in half mode, everything in
  newton mode.\<close>

theorem pair_tally_global_witness:
  "eflag_global all_flags \<noteq> 0 \<and> vflag_global all_flags \<noteq> 0
   \<and> eng_vdwl (fst (e_tally_thr all_flags 5 6 3 0 2 4 (thr0, store0))) = 0
   \<and> eng_coul (fst (e_tally_thr all_flags 5 6 3 0 2 4 (thr0, store0))) = 0
   \<and> virial_pair (fst (v_tally_thr all_flags 5 6 3 0 (Vec6 1 2 3 4 5 6) (thr0, store0))) = 0
   \<and> eng_vdwl (fst (e_tally_thr all_flags 5 6 3 1 2 4 (thr0, store0))) = 2
   \<and> eng_coul (fst (e_tally_thr all_flags 5 6 3 1 2 4 (thr0, store0))) = 4
   \<and> virial_pair (fst (v_tally_thr all_flags 5 6 3 1 (Vec6 1 2 3 4 5 6) (thr0, store0))) =
       Vec6 1 2 3 4 5 6"
  using pair_tally_global [where pair = all_flags and i = 5 and j = 6 and nlocal = 3
      and newton_pair = 0 and evdwl = 2 and ecoul = 4 and s = "(thr0, store0)"
      and v = "Vec6 1 2 3 4 5 6"]
    pair_tally_global [where pair = all_flags and i = 5 and j = 6 and nlocal = 3
      and newton_pair = 1 and evdwl = 2 and ecoul = 4 and s = "(thr0, store0)"
      and v = "Vec6 1 2 3 4 5 6"]
  by (simp add: all_flags_def thr0_def)

text \<open>
  C4, as stated: each half of the pair energy is written to an atom's per-atom slot only
  if the atom is below \<open>nlocal\<close>. In newton mode the code writes the half of a ghost too:
  atom 5 with \<open>nlocal = 3\<close> receives half of the energy 2.
\<close>

theorem e_tally_thr_ghost_counterexample:
  "eflag_atom all_flags \<noteq> 0 \<and> \<not> (5::int) < 3
   \<and> eatom_at (thr0, store0) 5 = 0
   \<and> eatom_at (e_tally_thr all_flags 5 6 3 1 2 0 (thr0, store0)) 5 = 1"
  by (simp add: e_tally_thr_def Let_def frame all_flags_def)
    (simp add: eatom_at_def thr0_def store0_def)

text \<open>
  C4, amended. With per-atom energy accounting enabled, the pair energy \<open>evdwl + ecoul\<close>
  is split in two halves whatever the newton mode; the half of \<open>i\<close> is added to the
  per-atom energy of \<open>i\<close> exactly when newton mode is on or \<open>i < nlocal\<close>, the half of \<open>j\<close>
  likewise, and no other slot changes.
\<close>

theorem e_tally_thr_eatom:
  assumes "eflag_atom pair \<noteq> 0"
  shows "eatom_at (e_tally_thr pair i j nlocal newton_pair evdwl ecoul s) x =
           eatom_at s x
           + (if (newton_pair \<noteq> 0 \<or> i < nlocal) \<and> x = i then 0.5 * (evdwl + ecoul) else 0)
           + (if (newton_pair \<noteq> 0 \<or> j < nlocal) \<and> x = j then 0.5 * (evdwl + ecoul) else 0)"
  using assms by (simp add: e_tally_thr_def Let_def frame)

text \<open>Half mode, atom 1 local and atom 5 a ghost: slot 1 receives half of 2 + 4, slot 5
  nothing.\<close>

theorem e_tally_thr_eatom_witness:
  "eflag_atom all_flags \<noteq> 0
   \<and> eatom_at (e_tally_thr all_flags 1 5 3 0 2 4 (thr0, store0)) 1 = 3
   \<and> eatom_at (e_tally_thr all_flags 1 5 3 0 2 4 (thr0, store0)) 5 = 0"
  using e_tally_thr_eatom [where pair = all_flags and i = 1 and j = 5 and nlocal = 3
      and newton_pair = 0 and evdwl = 2 and ecoul = 4 and s = "(thr0, store0)" and x = 1]
    e_tally_thr_eatom [where pair = all_flags and i = 1 and j = 5 and nlocal = 3
      and newton_pair = 0 and evdwl = 2 and ecoul = 4 and s = "(thr0, store0)" and x = 5]
  by (simp add: all_flags_def eatom_at_def thr0_def store0_def)

section \<open>Triplet and quadruplet tallies\<close>

text \<open>
  C8. With per-atom energy accounting enabled, the triplet tally adds a third of
  \<open>evdwl + ecoul\<close> to the per-atom energy of each of \<open>i\<close>, \<open>j\<close>, \<open>k\<close> and the quadruplet
  tally a quarter of \<open>evdwl\<close> to that of each of \<open>i\<close>, \<open>j\<close>, \<open>k\<close>, \<open>m\<close>, with no test on the
  indices (an index that occurs twice receives two shares, no other slot changes); the
  increases of the participating atoms add up to the interaction energy.
\<close>

theorem ev_tally34_eatom_shares:
  assumes "eflag_either pair \<noteq> 0" and "eflag_atom pair \<noteq> 0"
  shows "eatom_at (ev_tally3_thr pair i j k evdwl ecoul fj fk drji drki s) x =
           eatom_at s x + real (count_list [i, j, k] x) * (THIRD * (evdwl + ecoul))
       \<and> (\<Sum>x\<in>set [i, j, k]. eatom_at (ev_tally3_thr pair i j k evdwl ecoul fj fk drji drki s) x
             - eatom_at s x) = evdwl + ecoul
       \<and> eatom_at (ev_tally4_thr pair i j k m evdwl fi fj fk drim drjm drkm s) x =
           eatom_at s x + real (count_list [i, j, k, m] x) * (0.25 * evdwl)
       \<and> (\<Sum>x\<in>set [i, j, k, m]. eatom_at (ev_tally4_thr pair i j k m evdwl fi fj fk drim drjm drkm s) x
             - eatom_at s x) = evdwl"
proof -
  note e3 = ev_tally3_eatom [OF assms]
  note e4 = ev_tally4_eatom [OF assms]
  have "(\<Sum>x\<in>set [i, j, k]. eatom_at (ev_tally3_thr pair i j k evdwl ecoul fj fk drji drki s) x
           - eatom_at s x) = real (length [i, j, k]) * (THIRD * (evdwl + ecoul))"
    by (rule sum_increments) (rule e3)
  moreover have "(\<Sum>x\<in>set [i, j, k, m]. eatom_at (ev_tally4_thr pair i j k m evdwl fi fj fk drim drjm drkm s) x
           - eatom_at s x) = real (length [i, j, k, m]) * (0.25 * evdwl)"
    by (rule sum_increments) (rule e4)
  ultimately show ?thesis
    using e3 e4 by (simp add: THIRD_def)
qed

text \<open>Energy 2 + 4 over atoms 7, 8, 9 gives atom 8 the share 2; energy 2 over atoms
  6, 7, 8, 9 gives atom 9 the share 0.5.\<close>

theorem ev_tally34_eatom_shares_witness:
  "eflag_either all_flags \<noteq> 0 \<and> eflag_atom all_flags \<noteq> 0
   \<and> eatom_at (ev_tally3_thr all_flags 7 8 9 2 4 (Vec3 0 0 0) (Vec3 0 0 0) (Vec3 0 0 0) (Vec3 0 0 0)
        (thr0, store0)) 8 = 2
   \<and> eatom_at (ev_tally4_thr all_flags 6 7 8 9 2 (Vec3 0 0 0) (Vec3 0 0 0) (Vec3 0 0 0) (Vec3 0 0 0)
        (Vec3 0 0 0) (Vec3 0 0 0) (thr0, store0)) 9 = 0.5"
  using ev_tally34_eatom_shares [where pair = all_flags and i = 7 and j = 8 and k = 9
      and evdwl = 2 and ecoul = 4 and s = "(thr0, store0)" and x = 8and fj = "Vec3 0 0 0" and fk = "Vec3 0 0 0" 
      and drji = "Vec3 0 0 0" and drki = "Vec3 0 0 0"]
   ev_tally34_eatom_shares [where pair = all_flags and i = 6 and j = 7 and k = 8 and m = 9
      and evdwl = 2 and s = "(thr0, store0)" and x = 9 and fi = "Vec3 0 0 0" and fj = "Vec3 0 0 0" and fk = "Vec3 0 0 0" 
      and drim = "Vec3 0 0 0" and drjm = "Vec3 0 0 0" and drkm = "Vec3 0 0 0"]
  by (simp add: all_flags_def eatom_at_def thr0_def store0_def THIRD_def)


text \<open>
  C6, as stated: the quadruplet tally adds the scaled virial to the thread's global virial
  total too. \<^verbatim>\<open>ev_tally4_thr\<close> has no such statement: with every flag set, the four
  atoms receive their quarter and \<open>virial_pair\<close> stays as it was.
\<close>

theorem ev_tally4_thr_no_global_virial_counterexample:
  "vflag_either all_flags \<noteq> 0 \<and> vflag_global all_flags \<noteq> 0 \<and> vflag_atom all_flags \<noteq> 0
   \<and> virial4 (Vec3 4 0 0) (Vec3 0 0 0) (Vec3 0 0 0) (Vec3 1 0 0) (Vec3 0 0 0) (Vec3 0 0 0) =
       Vec6 4 0 0 0 0 0
   \<and> vatom_at (ev_tally4_thr all_flags 0 1 2 3 0 (Vec3 4 0 0) (Vec3 0 0 0) (Vec3 0 0 0)
        (Vec3 1 0 0) (Vec3 0 0 0) (Vec3 0 0 0) (thr0, store0)) 2 = Vec6 1 0 0 0 0 0
   \<and> virial_pair thr0 = Vec6 0 0 0 0 0 0
   \<and> virial_pair (fst (ev_tally4_thr all_flags 0 1 2 3 0 (Vec3 4 0 0) (Vec3 0 0 0) (Vec3 0 0 0)
        (Vec3 1 0 0) (Vec3 0 0 0) (Vec3 0 0 0) (thr0, store0))) = Vec6 0 0 0 0 0 0"
  by (simp add: ev_tally4_thr_def Let_def frame all_flags_def virial4_def)
    (simp add: vatom_at_def thr0_def store0_def zero_vec6_def)

text \<open>
  C6, amended. The triplet tally, when virial accounting is enabled (\<open>vflag_either\<close>),
  adds the virial built from its arguments, unscaled, to the thread's pair virial total
  exactly when global virial accounting (\<open>vflag_global\<close>) is on, and a third of it to the
  per-atom stress of each of \<open>i\<close>, \<open>j\<close>, \<open>k\<close> exactly when per-atom virial accounting
  (\<open>vflag_atom\<close>) is on. The quadruplet tally adds a quarter of its virial to the per-atom
  stress of each of \<open>i\<close>, \<open>j\<close>, \<open>k\<close>, \<open>m\<close> exactly when per-atom virial accounting
  (\<open>vflag_atom\<close>) is on, whatever the two other flags are, and never changes the thread's
  pair virial total. An index that occurs twice receives two shares; no other per-atom
  stress slot changes.
\<close>

theorem ev_tally34_virial:
  "virial_pair (fst (ev_tally3_thr pair i j k evdwl ecoul fj fk drji drki s)) =
     virial_pair (fst s)
     + (if vflag_either pair \<noteq> 0 \<and> vflag_global pair \<noteq> 0
        then virial3 fj fk drji drki else 0)
   \<and> vatom_at (ev_tally3_thr pair i j k evdwl ecoul fj fk drji drki s) x =
     vatom_at s x
     + (if vflag_either pair \<noteq> 0 \<and> vflag_atom pair \<noteq> 0
        then vscale (real (count_list [i, j, k] x)) (vscale THIRD (virial3 fj fk drji drki))
        else 0)
   \<and> virial_pair (fst (ev_tally4_thr pair i j k m evdwl fi fj fk drim drjm drkm s)) =
     virial_pair (fst s)
   \<and> vatom_at (ev_tally4_thr pair i j k m evdwl fi fj fk drim drjm drkm s) x =
     vatom_at s x
     + (if vflag_atom pair \<noteq> 0
        then vscale (real (count_list [i, j, k, m] x))
               (vscale 0.25 (virial4 fi fj fk drim drjm drkm))
        else 0)"
proof -
  have g3: "virial_pair (fst (ev_tally3_thr pair i j k evdwl ecoul fj fk drji drki s)) =
      virial_pair (fst s)
      + (if vflag_either pair \<noteq> 0 \<and> vflag_global pair \<noteq> 0
         then virial3 fj fk drji drki else 0)"
    by (simp add: ev_tally3_thr_def Let_def frame virial3_def)
  have a3: "vatom_at (ev_tally3_thr pair i j k evdwl ecoul fj fk drji drki s) x =
      vatom_at s x
      + (if vflag_either pair \<noteq> 0 \<and> vflag_atom pair \<noteq> 0
         then vscale (real (count_list [i, j, k] x)) (vscale THIRD (virial3 fj fk drji drki))
         else 0)"
  proof (cases "vflag_either pair \<noteq> 0 \<and> vflag_atom pair \<noteq> 0")
    case True
    then have "vatom_at (ev_tally3_thr pair i j k evdwl ecoul fj fk drji drki s) x =
        vatom_at s x
        + vscale (real (count_list [i, j, k] x)) (vscale THIRD (virial3 fj fk drji drki))"
      by (simp only: count3_vec6 [symmetric])
        (simp add: ev_tally3_thr_def Let_def frame virial3_def)
    with True show ?thesis by simp
  next
    case False
    then consider "vflag_either pair = 0" | "vflag_atom pair = 0"
      by blast
    then show ?thesis
    proof cases
      case 1
      then show ?thesis
        by (simp add: ev_tally3_thr_def Let_def frame)
    next
      case 2
      then show ?thesis
        by (simp add: ev_tally3_thr_def Let_def frame)
    qed
  qed
  have g4: "virial_pair (fst (ev_tally4_thr pair i j k m evdwl fi fj fk drim drjm drkm s)) =
      virial_pair (fst s)"
    by (simp add: ev_tally4_thr_def Let_def frame)
  have a4: "vatom_at (ev_tally4_thr pair i j k m evdwl fi fj fk drim drjm drkm s) x =
      vatom_at s x
      + (if vflag_atom pair \<noteq> 0
         then vscale (real (count_list [i, j, k, m] x))
                (vscale 0.25 (virial4 fi fj fk drim drjm drkm))
         else 0)"
  proof (cases "vflag_atom pair \<noteq> 0")
    case True
    then have "vatom_at (ev_tally4_thr pair i j k m evdwl fi fj fk drim drjm drkm s) x =
        vatom_at s x
        + vscale (real (count_list [i, j, k, m] x))
            (vscale 0.25 (virial4 fi fj fk drim drjm drkm))"
      by (simp only: count4_vec6 [symmetric])
        (simp add: ev_tally4_thr_def Let_def frame virial4_def)
    with True show ?thesis by simp
  next
    case False
    then show ?thesis
      by (simp add: ev_tally4_thr_def Let_def frame)
  qed
  show ?thesis
    by (intro conjI g3 a3 g4 a4)
qed

text \<open>A triplet with virial \<open>(3, 0, 0, 0, 0, 0)\<close> and every flag set; the same triplet
  with global virial accounting off; a quadruplet with virial \<open>(4, 0, 0, 0, 0, 0)\<close> and
  every flag set; the same quadruplet with only \<open>vflag_atom\<close> set among the virial
  flags.\<close>

theorem ev_tally34_virial_witness:
  "virial_pair (fst (ev_tally3_thr all_flags 7 8 9 0 0 (Vec3 3 0 0) (Vec3 0 0 0) (Vec3 1 0 0)
        (Vec3 0 0 0) (thr0, store0))) = Vec6 3 0 0 0 0 0
   \<and> vatom_at (ev_tally3_thr all_flags 7 8 9 0 0 (Vec3 3 0 0) (Vec3 0 0 0) (Vec3 1 0 0)
        (Vec3 0 0 0) (thr0, store0)) 8 = Vec6 1 0 0 0 0 0
   \<and> virial_pair (fst (ev_tally3_thr (all_flags\<lparr>vflag_global := 0\<rparr>) 7 8 9 0 0 (Vec3 3 0 0)
        (Vec3 0 0 0) (Vec3 1 0 0) (Vec3 0 0 0) (thr0, store0))) = Vec6 0 0 0 0 0 0
   \<and> virial_pair (fst (ev_tally4_thr all_flags 6 7 8 9 0 (Vec3 4 0 0) (Vec3 0 0 0) (Vec3 0 0 0)
        (Vec3 1 0 0) (Vec3 0 0 0) (Vec3 0 0 0) (thr0, store0))) = Vec6 0 0 0 0 0 0
   \<and> vatom_at (ev_tally4_thr all_flags 6 7 8 9 0 (Vec3 4 0 0) (Vec3 0 0 0) (Vec3 0 0 0)
        (Vec3 1 0 0) (Vec3 0 0 0) (Vec3 0 0 0) (thr0, store0)) 9 = Vec6 1 0 0 0 0 0
   \<and> vatom_at (ev_tally4_thr (all_flags\<lparr>vflag_either := 0, vflag_global := 0\<rparr>) 6 7 8 9 0
        (Vec3 4 0 0) (Vec3 0 0 0) (Vec3 0 0 0) (Vec3 1 0 0) (Vec3 0 0 0) (Vec3 0 0 0)
        (thr0, store0)) 9 = Vec6 1 0 0 0 0 0"
proof -
  have z: "vatom_at (thr0, store0) x = Vec6 0 0 0 0 0 0" for x
    by (simp add: vatom_at_def thr0_def store0_def zero_vec6_def)
  note t3 = ev_tally34_virial [where i = 7 and j = 8 and k = 9 and x = 8
      and evdwl = 0 and ecoul = 0 and fj = "Vec3 3 0 0" and fk = "Vec3 0 0 0"
      and drji = "Vec3 1 0 0" and drki = "Vec3 0 0 0" and s = "(thr0, store0)"]
  note t4 = ev_tally34_virial [where i = 6 and j = 7 and k = 8 and m = 9 and x = 9
      and evdwl = 0 and fi = "Vec3 4 0 0" and fj = "Vec3 0 0 0" and fk = "Vec3 0 0 0"
      and drim = "Vec3 1 0 0" and drjm = "Vec3 0 0 0" and drkm = "Vec3 0 0 0"
      and s = "(thr0, store0)"]
  have a: "virial_pair (fst (ev_tally3_thr all_flags 7 8 9 0 0 (Vec3 3 0 0) (Vec3 0 0 0)
      (Vec3 1 0 0) (Vec3 0 0 0) (thr0, store0))) = Vec6 3 0 0 0 0 0"
    using t3 [where pair = all_flags, THEN conjunct1]
    by (simp add: all_flags_def thr0_def virial3_def zero_vec6_def)
  have b: "vatom_at (ev_tally3_thr all_flags 7 8 9 0 0 (Vec3 3 0 0) (Vec3 0 0 0) (Vec3 1 0 0)
      (Vec3 0 0 0) (thr0, store0)) 8 = Vec6 1 0 0 0 0 0"
    using t3 [where pair = all_flags, THEN conjunct2, THEN conjunct1]
    by (simp add: all_flags_def z THIRD_def virial3_def)
  have c: "virial_pair (fst (ev_tally3_thr (all_flags\<lparr>vflag_global := 0\<rparr>) 7 8 9 0 0
      (Vec3 3 0 0) (Vec3 0 0 0) (Vec3 1 0 0) (Vec3 0 0 0) (thr0, store0))) = Vec6 0 0 0 0 0 0"
    using t3 [where pair = "all_flags\<lparr>vflag_global := 0\<rparr>", THEN conjunct1]
    by (simp add: all_flags_def thr0_def zero_vec6_def)
  have d: "virial_pair (fst (ev_tally4_thr all_flags 6 7 8 9 0 (Vec3 4 0 0) (Vec3 0 0 0)
      (Vec3 0 0 0) (Vec3 1 0 0) (Vec3 0 0 0) (Vec3 0 0 0) (thr0, store0))) = Vec6 0 0 0 0 0 0"
    using t4 [where pair = all_flags, THEN conjunct2, THEN conjunct2, THEN conjunct1]
    by (simp add: thr0_def zero_vec6_def)
  have e: "vatom_at (ev_tally4_thr all_flags 6 7 8 9 0 (Vec3 4 0 0) (Vec3 0 0 0) (Vec3 0 0 0)
      (Vec3 1 0 0) (Vec3 0 0 0) (Vec3 0 0 0) (thr0, store0)) 9 = Vec6 1 0 0 0 0 0"
    using t4 [where pair = all_flags, THEN conjunct2, THEN conjunct2, THEN conjunct2]
    by (simp add: all_flags_def z virial4_def)
  have f: "vatom_at (ev_tally4_thr (all_flags\<lparr>vflag_either := 0, vflag_global := 0\<rparr>) 6 7 8 9 0
      (Vec3 4 0 0) (Vec3 0 0 0) (Vec3 0 0 0) (Vec3 1 0 0) (Vec3 0 0 0) (Vec3 0 0 0)
      (thr0, store0)) 9 = Vec6 1 0 0 0 0 0"
    using t4 [where pair = "all_flags\<lparr>vflag_either := 0, vflag_global := 0\<rparr>",
        THEN conjunct2, THEN conjunct2, THEN conjunct2]
    by (simp add: all_flags_def z virial4_def)
  show ?thesis
    by (intro conjI a b c d e f)
qed

section \<open>List tally\<close>

text \<open>
  C7. With virial accounting enabled (either, global and per-atom), a list tally over a
  list of \<open>n > 0\<close> atoms with virial \<open>v\<close> adds \<open>v / n\<close> to the per-atom stress of a
  listed atom for each time the atom is listed, and changes no other slot; the increases
  of the listed atoms add up to \<open>v\<close>; the thread's pair virial total receives \<open>v\<close>
  unscaled.
\<close>

theorem ev_tally_list_thr_virial:
  assumes "vflag_either pair \<noteq> 0" and "vflag_global pair \<noteq> 0" and "vflag_atom pair \<noteq> 0"
    and "0 < n" and "n = int (length list)"
  shows "vatom_at (ev_tally_list_thr pair n list ecoul v s) x =
           vatom_at s x + vscale (real (count_list list x)) (vscale (1 / real_of_int n) v)
       \<and> (\<Sum>x\<in>set list. vatom_at (ev_tally_list_thr pair n list ecoul v s) x - vatom_at s x) = v
       \<and> virial_pair (fst (ev_tally_list_thr pair n list ecoul v s)) = virial_pair (fst s) + v"
proof -
  have len: "nat n = length list"
    using assms(5) by simp
  note inc = ev_tally_list_vatom [OF assms(1) assms(3) len]
  have "(\<Sum>x\<in>set list. vatom_at (ev_tally_list_thr pair n list ecoul v s) x - vatom_at s x) =
      vscale (real (length list)) (vscale (1 / real_of_int n) v)"
    by (rule sum_increments_vec6) (rule inc)
  also have "\<dots> = v"
    using assms(4,5) by (simp add: vscale_vscale)
  finally have total: "(\<Sum>x\<in>set list. vatom_at (ev_tally_list_thr pair n list ecoul v s) x
      - vatom_at s x) = v" .
  from inc total ev_tally_list_virial_pair [OF assms(1) assms(2) len] show ?thesis
    by simp
qed


text \<open>Four atoms and the virial \<open>(4, 8, 12, 16, 20, 24)\<close>: the listed atom 5 receives a
  quarter, atom 4 is not listed and receives nothing.\<close>

theorem ev_tally_list_thr_virial_witness:
  "vflag_either all_flags \<noteq> 0 \<and> vflag_global all_flags \<noteq> 0 \<and> vflag_atom all_flags \<noteq> 0
   \<and> (0::int) < 4 \<and> (4::int) = int (length [3, 5, 6, 8 :: int])
   \<and> vatom_at (ev_tally_list_thr all_flags 4 [3, 5, 6, 8] 0 (Vec6 4 8 12 16 20 24) (thr0, store0)) 5 =
       Vec6 1 2 3 4 5 6
   \<and> vatom_at (ev_tally_list_thr all_flags 4 [3, 5, 6, 8] 0 (Vec6 4 8 12 16 20 24) (thr0, store0)) 4 =
       Vec6 0 0 0 0 0 0
   \<and> virial_pair (fst (ev_tally_list_thr all_flags 4 [3, 5, 6, 8] 0 (Vec6 4 8 12 16 20 24)
        (thr0, store0))) = Vec6 4 8 12 16 20 24"
proof -
  have flags: "vflag_either all_flags \<noteq> 0" "vflag_global all_flags \<noteq> 0" "vflag_atom all_flags \<noteq> 0"
    by (simp_all add: all_flags_def)
  have n: "(0::int) < 4" "(4::int) = int (length [3, 5, 6, 8 :: int])"
    by simp_all
  have z: "vatom_at (thr0, store0) x = Vec6 0 0 0 0 0 0" for x
    by (simp add: vatom_at_def thr0_def store0_def zero_vec6_def)
  note t = ev_tally_list_thr_virial [OF flags n, where ecoul = 0 and v = "Vec6 4 8 12 16 20 24"
      and s = "(thr0, store0)"]
  have a: "vatom_at (ev_tally_list_thr all_flags 4 [3, 5, 6, 8] 0 (Vec6 4 8 12 16 20 24)
      (thr0, store0)) 5 = Vec6 1 2 3 4 5 6"
    using t [of 5, THEN conjunct1] by (simp add: z)
  have b: "vatom_at (ev_tally_list_thr all_flags 4 [3, 5, 6, 8] 0 (Vec6 4 8 12 16 20 24)
      (thr0, store0)) 4 = Vec6 0 0 0 0 0 0"
    using t [of 4, THEN conjunct1] by (simp add: z zero_vec6_def)
  have c: "virial_pair (fst (ev_tally_list_thr all_flags 4 [3, 5, 6, 8] 0 (Vec6 4 8 12 16 20 24)
      (thr0, store0))) = Vec6 4 8 12 16 20 24"
    using t [of 0, THEN conjunct2, THEN conjunct2] by (simp add: thr0_def zero_vec6_def)
  show ?thesis
    by (intro conjI flags n a b c)
qed

section \<open>Dihedral tally\<close>

text \<open>
  C2 asks that, for \<open>newton_bond = 0\<close>, the quarter of the virial is written to each of
  the four atoms that is below \<open>nlocal\<close>. The code tests \<open>i1\<close> four times and writes row
  \<open>i1\<close> four times: with the four local atoms 0, 1, 2, 3 and the virial
  \<open>(4, 0, 0, 0, 0, 0)\<close>, atom 0 receives the whole virial and atoms 1, 2, 3 nothing.
\<close>

theorem ev_tally_thr_dihed_vatom_i1_only:
  "vatom_at (ev_tally_thr_dihed all_flags 0 1 2 3 4 0 0 (Vec3 4 0 0) (Vec3 0 0 0) (Vec3 0 0 0)
      1 0 0 0 0 0 0 0 0 (thr0, store0)) 0 = Vec6 4 0 0 0 0 0
   \<and> vatom_at (ev_tally_thr_dihed all_flags 0 1 2 3 4 0 0 (Vec3 4 0 0) (Vec3 0 0 0) (Vec3 0 0 0)
      1 0 0 0 0 0 0 0 0 (thr0, store0)) 1 = Vec6 0 0 0 0 0 0
   \<and> vatom_at (ev_tally_thr_dihed all_flags 0 1 2 3 4 0 0 (Vec3 4 0 0) (Vec3 0 0 0) (Vec3 0 0 0)
      1 0 0 0 0 0 0 0 0 (thr0, store0)) 2 = Vec6 0 0 0 0 0 0
   \<and> vatom_at (ev_tally_thr_dihed all_flags 0 1 2 3 4 0 0 (Vec3 4 0 0) (Vec3 0 0 0) (Vec3 0 0 0)
      1 0 0 0 0 0 0 0 0 (thr0, store0)) 3 = Vec6 0 0 0 0 0 0"
  by (simp add: ev_tally_thr_dihed_def Let_def frame all_flags_def)
    (simp add: vatom_at_def thr0_def store0_def zero_vec6_def)

text \<open>
  C5. A dihedral tally with global energy accounting enabled adds its energy share (the
  whole energy in newton mode, a quarter for each of the four atoms below \<open>nlocal\<close>
  otherwise) to \<open>eng_bond\<close> and leaves \<open>eng_dihed\<close> as it was; the reduction of the
  dihedral category adds \<open>eng_dihed\<close> to the shared dihedral energy, so what the shared
  total receives after the tally is what it would have received before it.
\<close>

theorem dihedral_energy_not_merged:
  assumes "eflag_either dihed \<noteq> 0" and "eflag_global dihed \<noteq> 0"
  shows "eng_bond (fst (ev_tally_thr_dihed dihed i1 i2 i3 i4 nlocal newton_bond edihedral f1 f3 f4
             vb1x vb1y vb1z vb2x vb2y vb2z vb3x vb3y vb3z s)) =
           eng_bond (fst s) +
             (if newton_bond \<noteq> 0 then edihedral
              else real (length (filter (\<lambda>i. i < nlocal) [i1, i2, i3, i4])) * (0.25 * edihedral))
       \<and> eng_dihed (fst (ev_tally_thr_dihed dihed i1 i2 i3 i4 nlocal newton_bond edihedral f1 f3 f4
             vb1x vb1y vb1z vb2x vb2y vb2z vb3x vb3y vb3z s)) = eng_dihed (fst s)
       \<and> dihedral_energy (r_tot (reduce_thr fdotr lmp THR_DIHEDRAL eflag vflag
             \<lparr>r_thr = fst (ev_tally_thr_dihed dihed i1 i2 i3 i4 nlocal newton_bond edihedral f1 f3 f4
                  vb1x vb1y vb1z vb2x vb2y vb2z vb3x vb3y vb3z s),
              r_tot = tot, r_calls = cs\<rparr>)) =
           dihedral_energy tot + eng_dihed (fst s)"
  using dihed_eng_bond [OF assms] by (simp add: dihed_eng_dihed reduce_thr_dihedral_energy)

text \<open>Energy 8 in half mode with atoms 0 and 1 local, 2 and 3 ghosts: \<open>eng_bond\<close> is 4,
  \<open>eng_dihed\<close> and the shared dihedral energy stay 0.\<close>

theorem dihedral_energy_not_merged_witness:
  "eflag_either all_flags \<noteq> 0 \<and> eflag_global all_flags \<noteq> 0
   \<and> eng_bond (fst (ev_tally_thr_dihed all_flags 0 1 2 3 2 0 8 (Vec3 0 0 0) (Vec3 0 0 0)
        (Vec3 0 0 0) 0 0 0 0 0 0 0 0 0 (thr0, store0))) = 4
   \<and> eng_dihed (fst (ev_tally_thr_dihed all_flags 0 1 2 3 2 0 8 (Vec3 0 0 0) (Vec3 0 0 0)
        (Vec3 0 0 0) 0 0 0 0 0 0 0 0 0 (thr0, store0))) = 0
   \<and> dihedral_energy (r_tot (reduce_thr no_fdotr lmp0 THR_DIHEDRAL 1 1
        \<lparr>r_thr = fst (ev_tally_thr_dihed all_flags 0 1 2 3 2 0 8 (Vec3 0 0 0) (Vec3 0 0 0)
             (Vec3 0 0 0) 0 0 0 0 0 0 0 0 0 (thr0, store0)),
         r_tot = tot0, r_calls = []\<rparr>)) = 0"
  using dihedral_energy_not_merged [where dihed = all_flags and ?i1.0 = 0 and ?i2.0 = 1
      and ?i3.0 = 2 and ?i4.0 = 3 and nlocal = 2 and newton_bond = 0 and edihedral = 8
      and ?f1.0 = "Vec3 0 0 0" and ?f3.0 = "Vec3 0 0 0" and ?f4.0 = "Vec3 0 0 0"
      and ?vb1x.0 = 0 and ?vb1y.0 = 0 and ?vb1z.0 = 0 and ?vb2x.0 = 0 and ?vb2y.0 = 0
      and ?vb2z.0 = 0 and ?vb3x.0 = 0 and ?vb3y.0 = 0 and ?vb3z.0 = 0 and s = "(thr0, store0)"
      and fdotr = no_fdotr and lmp = lmp0 and eflag = 1 and vflag = 1 and tot = tot0 and cs = "[]"]
  by (simp add: all_flags_def thr0_def tot0_def)

section \<open>Force and torque reduction\<close>

text \<open>
  C9. \<^verbatim>\<open>reduce_thr\<close> calls \<^verbatim>\<open>data_reduce_thr\<close> exactly when its category is the last one
  scheduled (\<^verbatim>\<open>fix->last_omp_style\<close>): then it calls it on the force array with
  \<open>nlocal + nghost\<close> atoms, the number of threads, width 3 and the thread's id, and after
  that on the torque array with the same four numbers exactly when there is a torque
  array. In every other case it makes no such call.
\<close>

theorem reduce_thr_data_reduce_calls:
  "filter is_data_reduce (r_calls (reduce_thr fdotr lmp style eflag vflag r)) =
     filter is_data_reduce (r_calls r) @
       (if style = fix_last_omp_style lmp then
          Data_reduce_thr Force_array (atom_nlocal lmp + atom_nghost lmp) (comm_nthreads lmp) 3
            (tid (r_thr r))
          # (if atom_torque_present lmp then
               [Data_reduce_thr Torque_array (atom_nlocal lmp + atom_nghost lmp) (comm_nthreads lmp) 3
                  (tid (r_thr r))]
             else [])
        else [])"
  by (cases style)
    (simp_all add: reduce_thr_def Let_def sync_threads_def data_reduce_thr_def
      virial_fdotr_compute_def)

section \<open>Per-category reduction\<close>

text \<open>
  C1, as stated: for every category and every set of accumulators, the reduction step adds
  the sum of the threads' local energy and stress to the shared totals. For the pair
  category the additions are guarded by the flags: with \<open>eflag = 2\<close> and \<open>vflag = 4\<close>
  (per-atom accounting only) a thread that holds energies 1 and 2 and a virial of ones
  leaves the shared pair totals at 0.
\<close>

theorem reduce_step_gated_counterexample:
  "pair_eng_vdwl tot0 + sum_list (map eng_vdwl [thr1]) = 1
   \<and> pair_eng_vdwl (snd (reduce_step no_fdotr lmp0 THR_PAIR 2 4 [thr1] tot0)) = 0
   \<and> pair_eng_coul tot0 + sum_list (map eng_coul [thr1]) = 2
   \<and> pair_eng_coul (snd (reduce_step no_fdotr lmp0 THR_PAIR 2 4 [thr1] tot0)) = 0
   \<and> pair_virial tot0 + sum_list (map virial_pair [thr1]) = Vec6 1 1 1 1 1 1
   \<and> pair_virial (snd (reduce_step no_fdotr lmp0 THR_PAIR 2 4 [thr1] tot0)) = Vec6 0 0 0 0 0 0"
  by (simp add: reduce_thr_pair Let_def)
     (simp add: tot0_def thr1_def thr0_def zero_vec6_def)

text \<open>
  C1, amended. For the bond, angle, dihedral, improper and k-space categories, when every
  thread has run the reduction step, the category's shared energy and shared stress are
  their values before the step plus the sum over the threads of the thread's local energy
  and local stress of that category. For the pair category, the shared van der Waals and
  Coulomb energies are increased by the sum over the threads of the local values exactly
  when bit 1 of \<open>eflag\<close> is set, and the shared stress by the sum of the local pair
  stresses exactly when \<open>vflag AND 3\<close> is not 0; the local values are those the
  accumulators hold after the position-dot-force computation, when that is switched on;
  otherwise the pair totals keep their values.
\<close>

theorem reduce_step_totals:
  "bond_energy (snd (reduce_step fdotr lmp THR_BOND eflag vflag thrs tot)) =
     bond_energy tot + sum_list (map eng_bond thrs)
   \<and> bond_virial (snd (reduce_step fdotr lmp THR_BOND eflag vflag thrs tot)) =
     bond_virial tot + sum_list (map virial_bond thrs)
   \<and> angle_energy (snd (reduce_step fdotr lmp THR_ANGLE eflag vflag thrs tot)) =
     angle_energy tot + sum_list (map eng_angle thrs)
   \<and> angle_virial (snd (reduce_step fdotr lmp THR_ANGLE eflag vflag thrs tot)) =
     angle_virial tot + sum_list (map virial_angle thrs)
   \<and> dihedral_energy (snd (reduce_step fdotr lmp THR_DIHEDRAL eflag vflag thrs tot)) =
     dihedral_energy tot + sum_list (map eng_dihed thrs)
   \<and> dihedral_virial (snd (reduce_step fdotr lmp THR_DIHEDRAL eflag vflag thrs tot)) =
     dihedral_virial tot + sum_list (map virial_dihed thrs)
   \<and> improper_energy (snd (reduce_step fdotr lmp THR_IMPROPER eflag vflag thrs tot)) =
     improper_energy tot + sum_list (map eng_imprp thrs)
   \<and> improper_virial (snd (reduce_step fdotr lmp THR_IMPROPER eflag vflag thrs tot)) =
     improper_virial tot + sum_list (map virial_imprp thrs)
   \<and> kspace_energy (snd (reduce_step fdotr lmp THR_KSPACE eflag vflag thrs tot)) =
     kspace_energy tot + sum_list (map eng_kspce thrs)
   \<and> kspace_virial (snd (reduce_step fdotr lmp THR_KSPACE eflag vflag thrs tot)) =
     kspace_virial tot + sum_list (map virial_kspce thrs)
   \<and> pair_eng_vdwl (snd (reduce_step fdotr lmp THR_PAIR eflag vflag thrs tot)) =
     pair_eng_vdwl tot +
       (if eflag AND 1 \<noteq> 0 then sum_list (map (\<lambda>t. eng_vdwl (after_fdotr fdotr lmp t)) thrs) else 0)
   \<and> pair_eng_coul (snd (reduce_step fdotr lmp THR_PAIR eflag vflag thrs tot)) =
     pair_eng_coul tot +
       (if eflag AND 1 \<noteq> 0 then sum_list (map (\<lambda>t. eng_coul (after_fdotr fdotr lmp t)) thrs) else 0)
   \<and> pair_virial (snd (reduce_step fdotr lmp THR_PAIR eflag vflag thrs tot)) =
     pair_virial tot +
       (if vflag AND 3 \<noteq> 0 then sum_list (map (\<lambda>t. virial_pair (after_fdotr fdotr lmp t)) thrs) else 0)
   \<and> fst (reduce_step fdotr lmp THR_PAIR eflag vflag thrs tot) = map (after_fdotr fdotr lmp) thrs"
proof -
  have bonded:
    "bond_energy (snd (reduce_step fdotr lmp THR_BOND eflag vflag thrs tot)) =
       bond_energy tot + sum_list (map eng_bond thrs)"
    "bond_virial (snd (reduce_step fdotr lmp THR_BOND eflag vflag thrs tot)) =
       bond_virial tot + sum_list (map virial_bond thrs)"
    "angle_energy (snd (reduce_step fdotr lmp THR_ANGLE eflag vflag thrs tot)) =
       angle_energy tot + sum_list (map eng_angle thrs)"
    "angle_virial (snd (reduce_step fdotr lmp THR_ANGLE eflag vflag thrs tot)) =
       angle_virial tot + sum_list (map virial_angle thrs)"
    "dihedral_energy (snd (reduce_step fdotr lmp THR_DIHEDRAL eflag vflag thrs tot)) =
       dihedral_energy tot + sum_list (map eng_dihed thrs)"
    "dihedral_virial (snd (reduce_step fdotr lmp THR_DIHEDRAL eflag vflag thrs tot)) =
       dihedral_virial tot + sum_list (map virial_dihed thrs)"
    "improper_energy (snd (reduce_step fdotr lmp THR_IMPROPER eflag vflag thrs tot)) =
       improper_energy tot + sum_list (map eng_imprp thrs)"
    "improper_virial (snd (reduce_step fdotr lmp THR_IMPROPER eflag vflag thrs tot)) =
       improper_virial tot + sum_list (map virial_imprp thrs)"
    "kspace_energy (snd (reduce_step fdotr lmp THR_KSPACE eflag vflag thrs tot)) =
       kspace_energy tot + sum_list (map eng_kspce thrs)"
    "kspace_virial (snd (reduce_step fdotr lmp THR_KSPACE eflag vflag thrs tot)) =
       kspace_virial tot + sum_list (map virial_kspce thrs)"
    by (rule reduce_step_sum, simp add: reduce_thr_bonded)+
  have vdwl: "pair_eng_vdwl (snd (reduce_step fdotr lmp THR_PAIR eflag vflag thrs tot)) =
      pair_eng_vdwl tot +
        (if eflag AND 1 \<noteq> 0 then sum_list (map (\<lambda>t. eng_vdwl (after_fdotr fdotr lmp t)) thrs) else 0)"
    unfolding sum_list_gate [symmetric]
    by (rule reduce_step_sum) (simp add: reduce_thr_pair)
  have coul: "pair_eng_coul (snd (reduce_step fdotr lmp THR_PAIR eflag vflag thrs tot)) =
      pair_eng_coul tot +
        (if eflag AND 1 \<noteq> 0 then sum_list (map (\<lambda>t. eng_coul (after_fdotr fdotr lmp t)) thrs) else 0)"
    unfolding sum_list_gate [symmetric]
    by (rule reduce_step_sum) (simp add: reduce_thr_pair)
  have vir: "pair_virial (snd (reduce_step fdotr lmp THR_PAIR eflag vflag thrs tot)) =
      pair_virial tot +
        (if vflag AND 3 \<noteq> 0 then sum_list (map (\<lambda>t. virial_pair (after_fdotr fdotr lmp t)) thrs) else 0)"
    unfolding sum_list_gate [symmetric]
    by (rule reduce_step_sum) (simp add: reduce_thr_pair)
  have thrs: "fst (reduce_step fdotr lmp THR_PAIR eflag vflag thrs tot) = map (after_fdotr fdotr lmp) thrs"
    by (induction thrs arbitrary: tot) (simp_all add: Let_def reduce_thr_thr)
  show ?thesis
    by (intro conjI bonded vdwl coul vir thrs)
qed

end
